theory Spec2Isabelle
  imports Main "HOL-Library.Sublist"
begin

section \<open>Recorded Future analyst notes to STIX2: the conversion module\<close>

text \<open>
  A shallow embedding of \<^verbatim>\<open>rflib/rf_notes_to_stix2.py\<close>. Builder classes are
  records holding the attributes their constructors set; the STIX objects the builders
  hand to the \<^verbatim>\<open>stix2\<close> library are values of one datatype with a constructor
  per \<^verbatim>\<open>stix2\<close> class; exceptions are values of \<open>error\<close>; the clock, the
  random identifiers, the host's log and the calls to the risk-score API are threaded
  through a \<open>world\<close>.
\<close>

subsection \<open>Strings\<close>

text \<open>The two characters the patterns quote and escape: \<^verbatim>\<open>'\<close> and \<^verbatim>\<open>\\<close>.\<close>

definition sq :: char where
  "sq = CHR 0x27"

definition bsl :: char where
  "bsl = CHR 0x5C"

text \<open>
  \<^verbatim>\<open>s.replace(old, new)\<close>: every non-overlapping occurrence of \<open>old\<close>, from the
  left, becomes \<open>new\<close>; an empty \<open>old\<close> matches before every character and at the end.
\<close>

function str_replace :: "string \<Rightarrow> string \<Rightarrow> string \<Rightarrow> string" where
  "str_replace old new [] = (if old = [] then new else [])"
| "str_replace old new (c # cs) =
     (if old = [] then new @ c # str_replace old new cs
      else if prefix old (c # cs)
        then new @ str_replace old new (drop (length old) (c # cs))
      else c # str_replace old new cs)"
  by pat_completeness auto
termination
  by (relation "measure (\<lambda>(old, new, s). length s)") auto

text \<open>
  \<^verbatim>\<open>s.split(sep)\<close> for a one-character separator: never empty, and an empty field
  wherever two separators meet or the string starts or ends with one.
\<close>

fun str_split :: "char \<Rightarrow> string \<Rightarrow> string list" where
  "str_split sep [] = [[]]"
| "str_split sep (c # cs) =
     (if c = sep then [] # str_split sep cs
      else (case str_split sep cs of
              [] \<Rightarrow> [[c]]
            | w # ws \<Rightarrow> (c # w) # ws))"

text \<open>\<^verbatim>\<open>xs[i]\<close> for \<open>i \<ge> 0\<close> and \<^verbatim>\<open>xs[-k]\<close> for \<open>k > 0\<close>, raising IndexError.\<close>

datatype error =
    ConversionError string
  | KeyError string
  | IndexError
  | AttributeError

definition index_at :: "'a list \<Rightarrow> nat \<Rightarrow> error + 'a" where
  "index_at xs i = (if i < length xs then Inr (xs ! i) else Inl IndexError)"

definition index_from_end :: "'a list \<Rightarrow> nat \<Rightarrow> error + 'a" where
  "index_from_end xs k =
     (if 0 < k \<and> k \<le> length xs then Inr (xs ! (length xs - k)) else Inl IndexError)"

subsection \<open>The world outside the module\<close>

text \<open>
  \<^verbatim>\<open>datetime.now()\<close> reads a clock that moves on with every reading;
  \<^verbatim>\<open>stix2\<close> draws a fresh random identifier for a domain object built without one;
  \<^verbatim>\<open>helper.log_warning\<close>, \<^verbatim>\<open>helper.log_info\<close> and
  \<^verbatim>\<open>rfapi.get_risk_score\<close> are recorded, in order, as events.
\<close>

datatype event =
    Log_warning string
  | Log_info string
  | Get_risk_score string string

record world =
  clock :: nat
  uuid_counter :: nat
  events :: "event list"

definition datetime_now :: "world \<Rightarrow> nat \<times> world" where
  "datetime_now w = (clock w, w\<lparr>clock := Suc (clock w)\<rparr>)"

definition uuid4 :: "world \<Rightarrow> nat \<times> world" where
  "uuid4 w = (uuid_counter w, w\<lparr>uuid_counter := Suc (uuid_counter w)\<rparr>)"

definition log_warning :: "string \<Rightarrow> world \<Rightarrow> world" where
  "log_warning msg w = w\<lparr>events := events w @ [Log_warning msg]\<rparr>"

definition log_info :: "string \<Rightarrow> world \<Rightarrow> world" where
  "log_info msg w = w\<lparr>events := events w @ [Log_info msg]\<rparr>"

text \<open>
  The risk-score API is a parameter \<open>rf\<close> of the conversion: the score it returns for
  a category and a value. A call is recorded in the world.
\<close>

definition get_risk_score ::
  "(string \<Rightarrow> string \<Rightarrow> int) \<Rightarrow> string \<Rightarrow> string \<Rightarrow> world \<Rightarrow> int \<times> world" where
  "get_risk_score rf category name w =
     (rf category name, w\<lparr>events := events w @ [Get_risk_score category name]\<rparr>)"

subsection \<open>STIX identifiers and objects\<close>

text \<open>
  Identifiers come from three places, none of them in this module: the
  \<^verbatim>\<open>generate_id\<close> functions of \<^verbatim>\<open>pycti\<close> (a function of their arguments),
  \<^verbatim>\<open>stix2\<close>'s identifier of an observable (a function of its type and value) and
  \<^verbatim>\<open>stix2\<close>'s random identifier of a domain object built without one. An
  identifier is modelled as the record of how it was made.
\<close>

datatype timestamp = Now nat | Given string

datatype stix_id =
    Pycti string "string list"
  | Pycti_relationship string stix_id stix_id
  | Pycti_report "string option" timestamp
  | Sco string "string list"
  | Uuid4 string nat
  | Marking string

datatype tlp = TLP_WHITE | TLP_GREEN | TLP_AMBER | TLP_RED

record report =
  report_id :: stix_id
  report_name :: "string option"
  description :: "string option"
  published_at :: timestamp
  report_created_by_ref :: stix_id
  report_labels :: "string list option"
  report_report_types :: "string set option"
  object_refs :: "stix_id list"
  report_external_references :: "(string \<times> string) list"
  object_marking_refs :: "tlp option"

text \<open>
  One constructor per \<^verbatim>\<open>stix2\<close> class the module instantiates, with the
  properties the module passes, in the order: id, name, the class's own properties,
  \<^verbatim>\<open>created_by_ref\<close> (for the classes that have the property).
\<close>

datatype stix2_object =
    Stix2_Indicator stix_id string string string nat "stix_id option" "int option"
    \<comment> \<open>id, name, pattern_type, pattern, valid_from, created_by_ref, x_opencti_score\<close>
  | Stix2_IPv4Address stix_id string
  | Stix2_DomainName stix_id string
  | Stix2_URL stix_id string
  | Stix2_File stix_id string string
    \<comment> \<open>id, the one key of hashes, its value\<close>
  | Stix2_Relationship stix_id string stix_id stix_id "stix_id option"
    \<comment> \<open>id, relationship_type, source_ref, target_ref, created_by_ref\<close>
  | Stix2_AttackPattern stix_id string string "stix_id option"
    \<comment> \<open>id, name, x_mitre_id, created_by_ref\<close>
  | Stix2_Identity stix_id string string "stix_id option"
    \<comment> \<open>id, name, identity_class, created_by_ref\<close>
  | Stix2_ThreatActor stix_id string "stix_id option"
  | Stix2_IntrusionSet stix_id string "stix_id option"
  | Stix2_Malware stix_id string bool "stix_id option"
    \<comment> \<open>id, name, is_family, created_by_ref\<close>
  | Stix2_Vulnerability stix_id string "stix_id option"
  | Stix2_Software stix_id string
  | Stix2_Location stix_id string string string "stix_id option"
    \<comment> \<open>id, name, country, x_opencti_location_type, created_by_ref\<close>
  | Stix2_Campaign stix_id string "stix_id option"
  | Stix2_Report report
  | Stix2_MarkingDefinition tlp

text \<open>\<^verbatim>\<open>obj["type"]\<close> (and \<^verbatim>\<open>obj.type\<close>).\<close>

fun obj_type :: "stix2_object \<Rightarrow> string" where
  "obj_type (Stix2_Indicator i n pt p vf cb sc) = ''indicator''"
| "obj_type (Stix2_IPv4Address i v) = ''ipv4-addr''"
| "obj_type (Stix2_DomainName i v) = ''domain-name''"
| "obj_type (Stix2_URL i v) = ''url''"
| "obj_type (Stix2_File i a h) = ''file''"
| "obj_type (Stix2_Relationship i rt s t cb) = ''relationship''"
| "obj_type (Stix2_AttackPattern i n x cb) = ''attack-pattern''"
| "obj_type (Stix2_Identity i n c cb) = ''identity''"
| "obj_type (Stix2_ThreatActor i n cb) = ''threat-actor''"
| "obj_type (Stix2_IntrusionSet i n cb) = ''intrusion-set''"
| "obj_type (Stix2_Malware i n f cb) = ''malware''"
| "obj_type (Stix2_Vulnerability i n cb) = ''vulnerability''"
| "obj_type (Stix2_Software i n) = ''software''"
| "obj_type (Stix2_Location i n c t cb) = ''location''"
| "obj_type (Stix2_Campaign i n cb) = ''campaign''"
| "obj_type (Stix2_Report r) = ''report''"
| "obj_type (Stix2_MarkingDefinition m) = ''marking-definition''"

text \<open>\<^verbatim>\<open>obj["id"]\<close> (and \<^verbatim>\<open>obj.id\<close>).\<close>

fun tlp_name :: "tlp \<Rightarrow> string" where
  "tlp_name TLP_WHITE = ''white''"
| "tlp_name TLP_GREEN = ''green''"
| "tlp_name TLP_AMBER = ''amber''"
| "tlp_name TLP_RED = ''red''"

fun obj_id :: "stix2_object \<Rightarrow> stix_id" where
  "obj_id (Stix2_Indicator i n pt p vf cb sc) = i"
| "obj_id (Stix2_IPv4Address i v) = i"
| "obj_id (Stix2_DomainName i v) = i"
| "obj_id (Stix2_URL i v) = i"
| "obj_id (Stix2_File i a h) = i"
| "obj_id (Stix2_Relationship i rt s t cb) = i"
| "obj_id (Stix2_AttackPattern i n x cb) = i"
| "obj_id (Stix2_Identity i n c cb) = i"
| "obj_id (Stix2_ThreatActor i n cb) = i"
| "obj_id (Stix2_IntrusionSet i n cb) = i"
| "obj_id (Stix2_Malware i n f cb) = i"
| "obj_id (Stix2_Vulnerability i n cb) = i"
| "obj_id (Stix2_Software i n) = i"
| "obj_id (Stix2_Location i n c t cb) = i"
| "obj_id (Stix2_Campaign i n cb) = i"
| "obj_id (Stix2_Report r) = report_id r"
| "obj_id (Stix2_MarkingDefinition m) = Marking (tlp_name m)"

text \<open>
  The \<^verbatim>\<open>created_by_ref\<close> property: \<open>None\<close> where the object was built without
  one, and for the observables and the marking, whose classes have no such property.
\<close>

fun created_by_ref :: "stix2_object \<Rightarrow> stix_id option" where
  "created_by_ref (Stix2_Indicator i n pt p vf cb sc) = cb"
| "created_by_ref (Stix2_Relationship i rt s t cb) = cb"
| "created_by_ref (Stix2_AttackPattern i n x cb) = cb"
| "created_by_ref (Stix2_Identity i n c cb) = cb"
| "created_by_ref (Stix2_ThreatActor i n cb) = cb"
| "created_by_ref (Stix2_IntrusionSet i n cb) = cb"
| "created_by_ref (Stix2_Malware i n f cb) = cb"
| "created_by_ref (Stix2_Vulnerability i n cb) = cb"
| "created_by_ref (Stix2_Location i n c t cb) = cb"
| "created_by_ref (Stix2_Campaign i n cb) = cb"
| "created_by_ref (Stix2_Report r) = Some (report_created_by_ref r)"
| "created_by_ref _ = None"

text \<open>
  \<^verbatim>\<open>obj["identity_class"]\<close>: only an Identity has the key. Every Identity of this
  module is built with its class, so an object whose type is \<open>identity\<close> has one.
\<close>

fun identity_class :: "stix2_object \<Rightarrow> string option" where
  "identity_class (Stix2_Identity i n c cb) = Some c"
| "identity_class _ = None"

text \<open>The endpoints of a Relationship.\<close>

fun source_ref :: "stix2_object \<Rightarrow> stix_id option" where
  "source_ref (Stix2_Relationship i rt s t cb) = Some s"
| "source_ref _ = None"

fun target_ref :: "stix2_object \<Rightarrow> stix_id option" where
  "target_ref (Stix2_Relationship i rt s t cb) = Some t"
| "target_ref _ = None"

fun obj_name :: "stix2_object \<Rightarrow> string option" where
  "obj_name (Stix2_Indicator i n pt p vf cb sc) = Some n"
| "obj_name (Stix2_AttackPattern i n x cb) = Some n"
| "obj_name (Stix2_Identity i n c cb) = Some n"
| "obj_name (Stix2_ThreatActor i n cb) = Some n"
| "obj_name (Stix2_IntrusionSet i n cb) = Some n"
| "obj_name (Stix2_Malware i n f cb) = Some n"
| "obj_name (Stix2_Vulnerability i n cb) = Some n"
| "obj_name (Stix2_Software i n) = Some n"
| "obj_name (Stix2_Location i n c t cb) = Some n"
| "obj_name (Stix2_Campaign i n cb) = Some n"
| "obj_name (Stix2_Report r) = report_name r"
| "obj_name _ = None"

subsection \<open>Indicator builders: IPAddress, Domain, URL, FileHash\<close>

text \<open>
  The subclass of an indicator builder decides its pattern and its observable. A
  FileHash carries the attribute \<^verbatim>\<open>algorithm\<close> its constructor sets.
\<close>

datatype indicator_class = IPAddress | Domain | URL | FileHash string

record indicator =
  ind_class :: indicator_class
  ind_name :: string
  ind_author :: stix2_object
  stix_indicator :: "stix2_object option"
  stix_observable :: "stix2_object option"
  stix_relationship :: "stix2_object option"
  risk_score :: "int option"

definition Indicator_init :: "indicator_class \<Rightarrow> string \<Rightarrow> stix2_object \<Rightarrow> indicator" where
  "Indicator_init cls name author =
     \<lparr>ind_class = cls, ind_name = name, ind_author = author,
      stix_indicator = None, stix_observable = None, stix_relationship = None,
      risk_score = None\<rparr>"

definition determine_algorithm :: "string \<Rightarrow> error + string" where
  "determine_algorithm name =
     (if length name = 64 then Inr ''SHA-256''
      else if length name = 40 then Inr ''SHA-1''
      else if length name = 32 then Inr ''MD5''
      else Inl (ConversionError
        (''Could not determine hash type for '' @ name @
         ''. Only MD5, SHA1 and SHA256 hashes are supported'')))"

definition FileHash_init :: "string \<Rightarrow> stix2_object \<Rightarrow> error + indicator" where
  "FileHash_init name author =
     (case determine_algorithm name of
        Inl e \<Rightarrow> Inl e
      | Inr alg \<Rightarrow> Inr (Indicator_init (FileHash alg) name author))"

definition URL_create_pattern :: "string \<Rightarrow> string" where
  "URL_create_pattern name =
     (let ioc = str_replace [bsl] [bsl, bsl] name;
          ioc = str_replace [sq] [bsl, sq] ioc
      in ''[url:value = '' @ [sq] @ ioc @ [sq] @ '']'')"

definition create_pattern :: "indicator \<Rightarrow> string" where
  "create_pattern b =
     (case ind_class b of
        IPAddress \<Rightarrow> ''[ipv4-addr:value = '' @ [sq] @ ind_name b @ [sq] @ '']''
      | Domain \<Rightarrow> ''[domain-name:value = '' @ [sq] @ ind_name b @ [sq] @ '']''
      | URL \<Rightarrow> URL_create_pattern (ind_name b)
      | FileHash alg \<Rightarrow>
          ''[file:hashes.'' @ [sq] @ alg @ [sq] @ '' = '' @ [sq] @ ind_name b @ [sq] @ '']'')"

definition create_obs :: "indicator \<Rightarrow> stix2_object" where
  "create_obs b =
     (case ind_class b of
        IPAddress \<Rightarrow> Stix2_IPv4Address (Sco ''ipv4-addr'' [ind_name b]) (ind_name b)
      | Domain \<Rightarrow> Stix2_DomainName (Sco ''domain-name'' [ind_name b]) (ind_name b)
      | URL \<Rightarrow> Stix2_URL (Sco ''url'' [ind_name b]) (ind_name b)
      | FileHash alg \<Rightarrow> Stix2_File (Sco ''file'' [alg, ind_name b]) alg (ind_name b))"

definition create_indicator :: "indicator \<Rightarrow> world \<Rightarrow> stix2_object \<times> world" where
  "create_indicator b w =
     (let (now, w') = datetime_now w
      in (Stix2_Indicator (Pycti ''indicator'' [create_pattern b]) (ind_name b) ''stix''
            (create_pattern b) now (Some (obj_id (ind_author b))) (risk_score b), w'))"

text \<open>
  \<^verbatim>\<open>Indicator._create_rel\<close> reads the identifiers of the two objects built before
  it; on a builder that has not built them, \<^verbatim>\<open>None.id\<close> raises.
\<close>

definition Indicator_create_rel :: "indicator \<Rightarrow> error + stix2_object" where
  "Indicator_create_rel b =
     (case stix_indicator b of
        None \<Rightarrow> Inl AttributeError
      | Some i \<Rightarrow>
          (case stix_observable b of
             None \<Rightarrow> Inl AttributeError
           | Some ob \<Rightarrow>
               Inr (Stix2_Relationship
                      (Pycti_relationship ''based-on'' (obj_id i) (obj_id ob))
                      ''based-on'' (obj_id i) (obj_id ob) (Some (obj_id (ind_author b))))))"

definition Indicator_create_stix_objects ::
  "indicator \<Rightarrow> world \<Rightarrow> error + (indicator \<times> world)" where
  "Indicator_create_stix_objects b w =
     (let (i, w') = create_indicator b w;
          b = b\<lparr>stix_indicator := Some i\<rparr>;
          b = b\<lparr>stix_observable := Some (create_obs b)\<rparr>
      in case Indicator_create_rel b of
           Inl e \<Rightarrow> Inl e
         | Inr r \<Rightarrow> Inr (b\<lparr>stix_relationship := Some r\<rparr>, w'))"

text \<open>
  The three cached objects, when all three are there (a STIX object is never falsy: it
  is a mapping that holds at least its type).
\<close>

definition built :: "indicator \<Rightarrow> stix2_object list option" where
  "built b =
     (case stix_indicator b of
        None \<Rightarrow> None
      | Some i \<Rightarrow>
          (case stix_observable b of
             None \<Rightarrow> None
           | Some ob \<Rightarrow>
               (case stix_relationship b of
                  None \<Rightarrow> None
                | Some r \<Rightarrow> Some [i, ob, r])))"

text \<open>
  \<^verbatim>\<open>Indicator.to_stix_objects\<close>: the list returned, the builder and the world after
  the call. After \<^verbatim>\<open>create_stix_objects\<close> the three attributes are set, so the last
  branch is never taken.
\<close>

definition Indicator_to_stix_objects ::
  "indicator \<Rightarrow> world \<Rightarrow> error + (stix2_object list \<times> indicator \<times> world)" where
  "Indicator_to_stix_objects b w =
     (case built b of
        Some objs \<Rightarrow> Inr (objs, b, w)
      | None \<Rightarrow>
          (case Indicator_create_stix_objects b w of
             Inl e \<Rightarrow> Inl e
           | Inr (b', w') \<Rightarrow>
               (case built b' of
                  Some objs \<Rightarrow> Inr (objs, b', w')
                | None \<Rightarrow> Inl AttributeError)))"

subsection \<open>Descriptor builders on the parent class's cache\<close>

text \<open>
  TLPMarking, TTP, Identity, ThreatActor, IntrusionSet, Malware, Vulnerability and
  DetectionRule keep the parent's \<^verbatim>\<open>to_stix_objects\<close> and its attribute
  \<^verbatim>\<open>stix_obj\<close>; a DetectionRule carries its \<^verbatim>\<open>content\<close>.
\<close>

datatype entity_class =
    TLPMarking | TTP | Identity | ThreatActor | IntrusionSet | Malware | Vulnerability
  | DetectionRule string

record rf_entity =
  ent_class :: entity_class
  ent_name :: string
  ent_type :: string
  ent_author :: stix2_object
  stix_obj :: "stix2_object option"

definition RFStixEntity_init ::
  "entity_class \<Rightarrow> string \<Rightarrow> string \<Rightarrow> stix2_object \<Rightarrow> rf_entity" where
  "RFStixEntity_init cls name rf_type author =
     \<lparr>ent_class = cls, ent_name = name, ent_type = rf_type, ent_author = author,
      stix_obj = None\<rparr>"

text \<open>
  \<^verbatim>\<open>DetectionRule.__init__\<close>: the name is the first field of the file name split at
  every period; the type is checked after the attributes are set.
\<close>

definition DetectionRule_init ::
  "string \<Rightarrow> string \<Rightarrow> string \<Rightarrow> stix2_object \<Rightarrow> error + rf_entity" where
  "DetectionRule_init name rf_type content author =
     (case index_at (str_split CHR ''.'' name) 0 of
        Inl e \<Rightarrow> Inl e
      | Inr first \<Rightarrow>
          (if rf_type \<notin> set [''yara'', ''snort'', ''sigma'']
           then Inl (ConversionError
                  (''Detection rule of type '' @ rf_type @ '' is not supported''))
           else Inr \<lparr>ent_class = DetectionRule content, ent_name = first,
                     ent_type = rf_type, ent_author = author, stix_obj = None\<rparr>))"

definition Identity_type_to_class :: "string \<Rightarrow> string option" where
  "Identity_type_to_class =
     map_of [(''Company'', ''organization''), (''Organization'', ''organization''),
             (''Person'', ''individual''), (''Industry'', ''class'')]"

definition create_id_class :: "rf_entity \<Rightarrow> error + string" where
  "create_id_class e =
     (case Identity_type_to_class (ent_type e) of
        None \<Rightarrow> Inl (KeyError (ent_type e))
      | Some c \<Rightarrow> Inr c)"

text \<open>
  \<^verbatim>\<open>create_stix_objects\<close> of each subclass: the object it assigns to
  \<^verbatim>\<open>self.stix_obj\<close>.
\<close>

definition create_stix_objects ::
  "rf_entity \<Rightarrow> world \<Rightarrow> error + (stix2_object \<times> world)" where
  "create_stix_objects e w =
     (let name = ent_name e; by = Some (obj_id (ent_author e)) in
      case ent_class e of
        TLPMarking \<Rightarrow>
          Inr (Stix2_AttackPattern (Pycti ''attack-pattern'' [name, name]) name name by, w)
      | TTP \<Rightarrow>
          Inr (Stix2_AttackPattern (Pycti ''attack-pattern'' [name, name]) name name by, w)
      | Identity \<Rightarrow>
          (case create_id_class e of
             Inl err \<Rightarrow> Inl err
           | Inr c \<Rightarrow> Inr (Stix2_Identity (Pycti ''identity'' [name, c]) name c by, w))
      | ThreatActor \<Rightarrow> Inr (Stix2_ThreatActor (Pycti ''threat-actor'' [name]) name by, w)
      | IntrusionSet \<Rightarrow> Inr (Stix2_IntrusionSet (Pycti ''intrusion-set'' [name]) name by, w)
      | Malware \<Rightarrow> Inr (Stix2_Malware (Pycti ''malware'' [name]) name False by, w)
      | Vulnerability \<Rightarrow>
          Inr (Stix2_Vulnerability (Pycti ''vulnerability'' [name]) name by, w)
      | DetectionRule content \<Rightarrow>
          (let (now, w') = datetime_now w
           in Inr (Stix2_Indicator (Pycti ''indicator'' [content]) name (ent_type e)
                     content now by None, w')))"

definition RFStixEntity_to_stix_objects ::
  "rf_entity \<Rightarrow> world \<Rightarrow> error + (stix2_object list \<times> rf_entity \<times> world)" where
  "RFStixEntity_to_stix_objects e w =
     (case stix_obj e of
        Some ob \<Rightarrow> Inr ([ob], e, w)
      | None \<Rightarrow>
          (case create_stix_objects e w of
             Inl err \<Rightarrow> Inl err
           | Inr (ob, w') \<Rightarrow> Inr ([ob], e\<lparr>stix_obj := Some ob\<rparr>, w')))"

subsection \<open>Software, Location, Campaign\<close>

text \<open>
  These three have constructors of their own, which take the author and do not keep
  it, and a cache attribute of their own.
\<close>

record software =
  sw_name :: string
  software_object :: "stix2_object option"

definition Software_init :: "string \<Rightarrow> string \<Rightarrow> stix2_object \<Rightarrow> software" where
  "Software_init name rf_type author = \<lparr>sw_name = name, software_object = None\<rparr>"

definition Software_to_stix_objects :: "software \<Rightarrow> stix2_object list \<times> software" where
  "Software_to_stix_objects s =
     (case software_object s of
        Some ob \<Rightarrow> ([ob], s)
      | None \<Rightarrow>
          (let ob = Stix2_Software (Sco ''software'' [sw_name s]) (sw_name s)
           in ([ob], s\<lparr>software_object := Some ob\<rparr>)))"

record location =
  loc_name :: string
  loc_type :: string
  location_object :: "stix2_object option"

definition rf_type_to_stix :: "string \<Rightarrow> string option" where
  "rf_type_to_stix =
     map_of [(''Country'', ''Country''), (''City'', ''City''),
             (''ProvinceOrState'', ''Administrative-Area'')]"

definition Location_init :: "string \<Rightarrow> string \<Rightarrow> stix2_object \<Rightarrow> error + location" where
  "Location_init name rf_type author =
     (case rf_type_to_stix rf_type of
        None \<Rightarrow> Inl (KeyError rf_type)
      | Some t \<Rightarrow> Inr \<lparr>loc_name = name, loc_type = t, location_object = None\<rparr>)"

definition Location_to_stix_objects ::
  "location \<Rightarrow> world \<Rightarrow> stix2_object list \<times> location \<times> world" where
  "Location_to_stix_objects l w =
     (case location_object l of
        Some ob \<Rightarrow> ([ob], l, w)
      | None \<Rightarrow>
          (let (u, w') = uuid4 w;
               ob = Stix2_Location (Uuid4 ''location'' u) (loc_name l) (loc_name l)
                      (loc_type l) None
           in ([ob], l\<lparr>location_object := Some ob\<rparr>, w')))"

record campaign =
  camp_name :: string
  campaign_object :: "stix2_object option"

definition Campaign_init :: "string \<Rightarrow> string \<Rightarrow> stix2_object \<Rightarrow> campaign" where
  "Campaign_init name rf_type author = \<lparr>camp_name = name, campaign_object = None\<rparr>"

definition Campaign_to_stix_objects ::
  "campaign \<Rightarrow> world \<Rightarrow> stix2_object list \<times> campaign \<times> world" where
  "Campaign_to_stix_objects c w =
     (case campaign_object c of
        Some ob \<Rightarrow> ([ob], c, w)
      | None \<Rightarrow>
          (let (u, w') = uuid4 w;
               ob = Stix2_Campaign (Uuid4 ''campaign'' u) (camp_name c) None
           in ([ob], c\<lparr>campaign_object := Some ob\<rparr>, w')))"

subsection \<open>The tables of the module\<close>

text \<open>
  A builder instance of any class, and \<^verbatim>\<open>ENTITY_TYPE_MAPPER\<close>, which maps a
  Recorded Future type to the class, that is, to its constructor.
\<close>

datatype rf_object =
    Obj_Indicator indicator
  | Obj_Entity rf_entity
  | Obj_Software software
  | Obj_Location location
  | Obj_Campaign campaign

definition ENTITY_TYPE_MAPPER ::
  "string \<Rightarrow> (string \<Rightarrow> string \<Rightarrow> stix2_object \<Rightarrow> error + rf_object) option" where
  "ENTITY_TYPE_MAPPER =
     map_of
      [(''IpAddress'', \<lambda>n t a. Inr (Obj_Indicator (Indicator_init IPAddress n a))),
       (''InternetDomainName'', \<lambda>n t a. Inr (Obj_Indicator (Indicator_init Domain n a))),
       (''URL'', \<lambda>n t a. Inr (Obj_Indicator (Indicator_init URL n a))),
       (''Hash'', \<lambda>n t a. map_sum id Obj_Indicator (FileHash_init n a)),
       (''MitreAttackIdentifier'', \<lambda>n t a. Inr (Obj_Entity (RFStixEntity_init TTP n t a))),
       (''Company'', \<lambda>n t a. Inr (Obj_Entity (RFStixEntity_init Identity n t a))),
       (''Person'', \<lambda>n t a. Inr (Obj_Entity (RFStixEntity_init Identity n t a))),
       (''Organization'', \<lambda>n t a. Inr (Obj_Entity (RFStixEntity_init Identity n t a))),
       (''Malware'', \<lambda>n t a. Inr (Obj_Entity (RFStixEntity_init Malware n t a))),
       (''CyberVulnerability'',
          \<lambda>n t a. Inr (Obj_Entity (RFStixEntity_init Vulnerability n t a))),
       (''Product'', \<lambda>n t a. Inr (Obj_Software (Software_init n t a))),
       (''Country'', \<lambda>n t a. map_sum id Obj_Location (Location_init n t a)),
       (''City'', \<lambda>n t a. map_sum id Obj_Location (Location_init n t a)),
       (''ProvinceOrState'', \<lambda>n t a. map_sum id Obj_Location (Location_init n t a)),
       (''Industry'', \<lambda>n t a. Inr (Obj_Entity (RFStixEntity_init Identity n t a))),
       (''Operation'', \<lambda>n t a. Inr (Obj_Campaign (Campaign_init n t a)))]"

definition INDICATOR_TYPE_URL_MAPPER :: "string \<Rightarrow> string option" where
  "INDICATOR_TYPE_URL_MAPPER =
     map_of [(''IpAddress'', ''ip''), (''InternetDomainName'', ''domain''),
             (''URL'', ''url''), (''Hash'', ''hash'')]"

text \<open>\<^verbatim>\<open>rf_object.to_stix_objects()\<close>, by the class of the instance.\<close>

definition to_stix_objects_of ::
  "rf_object \<Rightarrow> world \<Rightarrow> error + (stix2_object list \<times> world)" where
  "to_stix_objects_of ob w =
     (case ob of
        Obj_Indicator b \<Rightarrow>
          (case Indicator_to_stix_objects b w of
             Inl e \<Rightarrow> Inl e
           | Inr (objs, b', w') \<Rightarrow> Inr (objs, w'))
      | Obj_Entity e \<Rightarrow>
          (case RFStixEntity_to_stix_objects e w of
             Inl err \<Rightarrow> Inl err
           | Inr (objs, e', w') \<Rightarrow> Inr (objs, w'))
      | Obj_Software s \<Rightarrow> Inr (fst (Software_to_stix_objects s), w)
      | Obj_Location l \<Rightarrow>
          (let (objs, l', w') = Location_to_stix_objects l w in Inr (objs, w'))
      | Obj_Campaign c \<Rightarrow>
          (let (objs, c', w') = Campaign_to_stix_objects c w in Inr (objs, w')))"

text \<open>\<^verbatim>\<open>rf_object.risk_score = v\<close>; the output reads it on an indicator builder only.\<close>

definition set_risk_score :: "rf_object \<Rightarrow> int \<Rightarrow> rf_object" where
  "set_risk_score ob v =
     (case ob of
        Obj_Indicator b \<Rightarrow> Obj_Indicator (b\<lparr>risk_score := Some v\<rparr>)
      | _ \<Rightarrow> ob)"

definition report_type_mapper :: "string \<Rightarrow> string option" where
  "report_type_mapper =
     map_of
      [(''Actor Profile'', ''Threat-Actor''),
       (''Analyst On-Demand Report'', ''Threat-Report''),
       (''Cyber Threat Analysis'', ''Threat-Report''),
       (''Flash Report'', ''Threat-Report''),
       (''Geopolitical Flash Event'', ''Threat-Report''),
       (''Geopolitical Intelligence Summary'', ''Threat-Report''),
       (''Geopolitical Profile'', ''Threat-Actor''),
       (''Geopolitical Threat Forecast'', ''Threat-Actor''),
       (''Geopolitical Validated Event'', ''Observed-Data''),
       (''Hunting Package'', ''Attack-Pattern''),
       (''Indicator'', ''Indicator''),
       (''Informational'', ''Threat-Report''),
       (''Insikt Research Lead'', ''Intrusion-Set''),
       (''Malware/Tool Profile'', ''Malware''),
       (''Regular Vendor Vulnerability Disclosures'', ''Vulnerability''),
       (''Sigma Rule'', ''Attack-Pattern''),
       (''SNORT Rule'', ''Indicator''),
       (''Source Profile'', ''Observed-Data''),
       (''The Record by Recorded Future'', ''Threat-Report''),
       (''Threat Lead'', ''Threat-Actor''),
       (''TTP Instance'', ''Attack-Pattern''),
       (''Validated Intelligence Event'', ''Observed-Data''),
       (''Weekly Threat Landscape'', ''Threat-Report''),
       (''YARA Rule'', ''Indicator'')]"

text \<open>\<^verbatim>\<open>RELATIONSHIPS_MAPPER\<close>: the "from" type and its list of (entity, relation).\<close>

definition RELATIONSHIPS_MAPPER :: "(string \<times> (string \<times> string) list) list" where
  "RELATIONSHIPS_MAPPER =
     [(''threat-actor'',
        [(''malware'', ''uses''), (''vulnerability'', ''targets''),
         (''attack-pattern'', ''uses''), (''location'', ''targets''),
         (''identity'', ''targets'')]),
      (''intrusion-set'',
        [(''malware'', ''uses''), (''vulnerability'', ''targets''),
         (''attack-pattern'', ''uses''), (''location'', ''targets''),
         (''identity'', ''targets'')]),
      (''indicator'',
        [(''malware'', ''indicates''), (''threat-actor'', ''indicates''),
         (''intrusion-set'', ''indicates'')]),
      (''malware'',
        [(''attack-pattern'', ''uses''), (''location'', ''targets''),
         (''identity'', ''targets'')])]"

definition lower_char :: "char \<Rightarrow> char" where
  "lower_char c =
     (if 65 \<le> (of_char c :: nat) \<and> (of_char c :: nat) \<le> 90
      then char_of (of_char c + 32 :: nat) else c)"

definition TLP_MAP :: "string \<Rightarrow> tlp option" where
  "TLP_MAP =
     map_of [(''white'', TLP_WHITE), (''green'', TLP_GREEN), (''amber'', TLP_AMBER),
             (''red'', TLP_RED)]"

subsection \<open>StixNote\<close>

text \<open>The note as \<^verbatim>\<open>from_json\<close> reads it: \<^verbatim>\<open>note["attributes"]\<close>.\<close>

record note_entity =
  entity_type :: string
  entity_name :: string
  entity_id :: string

record topic =
  topic_name :: string

record attachment =
  attachment_name :: string
  attachment_type :: string
  attachment_content :: string

record rf_note =
  note_title :: string
  note_text :: string
  note_published :: string
  note_validation_urls :: "string list"
  note_topic :: "topic list"
  note_entities :: "note_entity list"
  note_attachment :: "attachment option"

text \<open>
  The attributes of a StixNote. \<^verbatim>\<open>report_types\<close> holds \<^verbatim>\<open>list(ret)\<close> of a
  Python set, a list in no fixed order: it is modelled as the set.
\<close>

record stix_note =
  sn_author :: stix2_object
  sn_name :: "string option"
  sn_text :: "string option"
  sn_published :: timestamp
  labels :: "string list option"
  report_types :: "string set option"
  external_references :: "(string \<times> string) list"
  objects :: "stix2_object list"
  sn_tas :: "string list"
  person_to_ta :: bool
  ta_to_intrusion_set :: bool
  risk_as_score :: bool
  risk_threshold :: "int option"
  sn_tlp :: "tlp option"

definition create_author :: stix2_object where
  "create_author =
     Stix2_Identity (Pycti ''identity'' [''Recorded Future'', ''organization''])
       ''Recorded Future'' ''organization'' None"

definition StixNote_init ::
  "string list \<Rightarrow> string \<Rightarrow> bool \<Rightarrow> bool \<Rightarrow> bool \<Rightarrow> int option \<Rightarrow> world \<Rightarrow> stix_note \<times> world"
  where
  "StixNote_init tas tlp p2ta ta2is ras thr w =
     (let (now, w') = datetime_now w
      in (\<lparr>sn_author = create_author, sn_name = None, sn_text = None,
           sn_published = Now now, labels = None, report_types = None,
           external_references = [], objects = [], sn_tas = tas, person_to_ta = p2ta,
           ta_to_intrusion_set = ta2is, risk_as_score = ras, risk_threshold = thr,
           sn_tlp = TLP_MAP (map lower_char tlp)\<rparr>, w'))"

text \<open>\<^verbatim>\<open>_generate_external_references\<close>; each url is \<^verbatim>\<open>url["name"]\<close>.\<close>

fun generate_external_references :: "string list \<Rightarrow> error + (string \<times> string) list" where
  "generate_external_references [] = Inr []"
| "generate_external_references (external_url # urls) =
     (case index_at (str_split CHR ''/'' external_url) 2 of
        Inl e \<Rightarrow> Inl e
      | Inr host \<Rightarrow>
          (case index_from_end (str_split CHR ''.'' host) 2 of
             Inl e \<Rightarrow> Inl e
           | Inr source_name \<Rightarrow>
               (case generate_external_references urls of
                  Inl e \<Rightarrow> Inl e
                | Inr refs \<Rightarrow> Inr ((source_name, external_url) # refs))))"

text \<open>\<^verbatim>\<open>_create_report_types\<close>: the loop, on the set built so far, and the call.\<close>

fun report_types_loop :: "topic list \<Rightarrow> string set \<Rightarrow> world \<Rightarrow> string set \<times> world" where
  "report_types_loop [] ret w = (ret, w)"
| "report_types_loop (t # ts) ret w =
     (let name = topic_name t in
      case report_type_mapper name of
        None \<Rightarrow>
          report_types_loop ts ret
            (log_warning (''Could not map a report type for type '' @ name) w)
      | Some v \<Rightarrow> report_types_loop ts (insert v ret) w)"

definition create_report_types :: "topic list \<Rightarrow> world \<Rightarrow> string set \<times> world" where
  "create_report_types topics w = report_types_loop topics {} w"

text \<open>
  The block of \<^verbatim>\<open>from_json\<close> under \<^verbatim>\<open>if self.risk_threshold:\<close>. A threshold
  is truthy when it is neither \<^verbatim>\<open>None\<close> nor zero. The block ends in
  \<^verbatim>\<open>continue\<close> (\<open>Skip\<close>) or leaves the local \<^verbatim>\<open>risk_score\<close> (\<open>Pass\<close>).
\<close>

datatype gate = Skip | Pass "int option"

definition risk_gate ::
  "(string \<Rightarrow> string \<Rightarrow> int) \<Rightarrow> stix_note \<Rightarrow> string \<Rightarrow> string \<Rightarrow> world
     \<Rightarrow> error + (gate \<times> world)" where
  "risk_gate rf self rf_type name w =
     (case risk_threshold self of
        None \<Rightarrow> Inr (Pass None, w)
      | Some threshold \<Rightarrow>
          (if threshold = 0 then Inr (Pass None, w)
           else (case INDICATOR_TYPE_URL_MAPPER rf_type of
                   None \<Rightarrow> Inl (KeyError rf_type)
                 | Some category \<Rightarrow>
                     (let (score, w') = get_risk_score rf category name w
                      in if score < threshold
                         then Inr (Skip,
                                log_info (''Ignoring entity '' @ name @
                                  '' as its risk score is lower than the defined risk threshold'')
                                  w')
                         else Inr (Pass (Some score), w')))))"

text \<open>
  The block under \<^verbatim>\<open>if self.risk_as_score:\<close>. The score already fetched is used
  when it is truthy (fetched, and not zero); otherwise the API is asked (again).
\<close>

definition risk_annotate ::
  "(string \<Rightarrow> string \<Rightarrow> int) \<Rightarrow> stix_note \<Rightarrow> string \<Rightarrow> string \<Rightarrow> rf_object \<Rightarrow> int option
     \<Rightarrow> world \<Rightarrow> error + (rf_object \<times> world)" where
  "risk_annotate rf self rf_type name ob score w =
     (if risk_as_score self
      then (let fetch =
                  (case INDICATOR_TYPE_URL_MAPPER rf_type of
                     None \<Rightarrow> Inl (KeyError rf_type)
                   | Some category \<Rightarrow>
                       (let (v, w') = get_risk_score rf category name w
                        in Inr (set_risk_score ob v, w')))
            in case score of
                 None \<Rightarrow> fetch
               | Some v \<Rightarrow> if v \<noteq> 0 then Inr (set_risk_score ob v, w) else fetch)
      else Inr (ob, w))"

text \<open>\<^verbatim>\<open>self.objects.extend(stix_objs)\<close>, when building the objects did not raise.\<close>

definition extend_objects ::
  "stix_note \<Rightarrow> error + (stix2_object list \<times> world) \<Rightarrow> error + (stix_note \<times> world)" where
  "extend_objects self r =
     (case r of
        Inl e \<Rightarrow> Inl e
      | Inr (stix_objs, w) \<Rightarrow> Inr (self\<lparr>objects := objects self @ stix_objs\<rparr>, w))"

text \<open>The body of the loop of \<^verbatim>\<open>from_json\<close> over the note's entities.\<close>

definition from_json_entity ::
  "(string \<Rightarrow> string \<Rightarrow> int) \<Rightarrow> stix_note \<Rightarrow> note_entity \<Rightarrow> world
     \<Rightarrow> error + (stix_note \<times> world)" where
  "from_json_entity rf self entity w =
     (let rf_type = entity_type entity; name = entity_name entity in
      if person_to_ta self \<and> rf_type = ''Person''
      then extend_objects self
             (to_stix_objects_of
                (Obj_Entity (RFStixEntity_init ThreatActor name rf_type (sn_author self))) w)
      else if entity_id entity \<in> set (sn_tas self)
      then (if ta_to_intrusion_set self \<and> rf_type \<noteq> ''Person''
            then extend_objects self
                   (to_stix_objects_of
                      (Obj_Entity
                         (RFStixEntity_init IntrusionSet name rf_type (sn_author self))) w)
            else extend_objects self
                   (to_stix_objects_of
                      (Obj_Entity
                         (RFStixEntity_init ThreatActor name rf_type (sn_author self))) w))
      else if rf_type = ''Source''
      then Inr (self\<lparr>external_references := external_references self @ [(name, name)]\<rparr>, w)
      else (case ENTITY_TYPE_MAPPER rf_type of
              None \<Rightarrow>
                Inr (self,
                     log_warning (''Cannot convert entity '' @ name @
                       '' to STIX2 because it is of type '' @ rf_type) w)
            | Some cls \<Rightarrow>
                (case cls name rf_type (sn_author self) of
                   Inl e \<Rightarrow> Inl e
                 | Inr ob \<Rightarrow>
                     (if rf_type \<in> set [''IpAddress'', ''InternetDomainName'', ''URL'', ''Hash'']
                      then (case risk_gate rf self rf_type name w of
                              Inl e \<Rightarrow> Inl e
                            | Inr (Skip, w1) \<Rightarrow> Inr (self, w1)
                            | Inr (Pass score, w1) \<Rightarrow>
                                (case risk_annotate rf self rf_type name ob score w1 of
                                   Inl e \<Rightarrow> Inl e
                                 | Inr (ob', w2) \<Rightarrow>
                                     extend_objects self (to_stix_objects_of ob' w2)))
                      else extend_objects self (to_stix_objects_of ob w)))))"

fun from_json_entities ::
  "(string \<Rightarrow> string \<Rightarrow> int) \<Rightarrow> stix_note \<Rightarrow> note_entity list \<Rightarrow> world
     \<Rightarrow> error + (stix_note \<times> world)" where
  "from_json_entities rf self [] w = Inr (self, w)"
| "from_json_entities rf self (entity # entities) w =
     (case from_json_entity rf self entity w of
        Inl e \<Rightarrow> Inl e
      | Inr (self', w') \<Rightarrow> from_json_entities rf self' entities w')"

text \<open>The end of \<^verbatim>\<open>from_json\<close>: the attached detection rule, when there is one.\<close>

definition from_json_attachment ::
  "stix_note \<Rightarrow> attachment option \<Rightarrow> world \<Rightarrow> error + (stix_note \<times> world)" where
  "from_json_attachment self att w =
     (case att of
        None \<Rightarrow> Inr (self, w)
      | Some a \<Rightarrow>
          (case DetectionRule_init (attachment_name a) (attachment_type a)
                  (attachment_content a) (sn_author self) of
             Inl e \<Rightarrow> Inl e
           | Inr rule \<Rightarrow> extend_objects self (to_stix_objects_of (Obj_Entity rule) w)))"

definition from_json ::
  "(string \<Rightarrow> string \<Rightarrow> int) \<Rightarrow> stix_note \<Rightarrow> rf_note \<Rightarrow> world
     \<Rightarrow> error + (stix_note \<times> world)" where
  "from_json rf self attr w =
     (case generate_external_references (note_validation_urls attr) of
        Inl e \<Rightarrow> Inl e
      | Inr refs \<Rightarrow>
          (let (types, w1) = create_report_types (note_topic attr) w;
               self1 = self\<lparr>sn_name := Some (note_title attr),
                            sn_text := Some (note_text attr),
                            sn_published := Given (note_published attr),
                            external_references := refs,
                            report_types := Some types,
                            labels := Some (map topic_name (note_topic attr))\<rparr>
           in case from_json_entities rf self1 (note_entities attr) w1 of
                Inl e \<Rightarrow> Inl e
              | Inr (self2, w2) \<Rightarrow> from_json_attachment self2 (note_attachment attr) w2))"

text \<open>\<^verbatim>\<open>StixNote._create_rel\<close> and \<^verbatim>\<open>create_relations\<close>.\<close>

definition StixNote_create_rel ::
  "stix_note \<Rightarrow> stix_id \<Rightarrow> stix_id \<Rightarrow> string \<Rightarrow> stix2_object" where
  "StixNote_create_rel self from_id to_id relation =
     Stix2_Relationship (Pycti_relationship relation from_id to_id) relation from_id to_id
       (Some (obj_id (sn_author self)))"

text \<open>
  The relationships one source entity adds: for each (entity, relation) of the first
  rule whose "from" is the source's type, one per target of that type, an identity
  only when its class is "class".
\<close>

definition relations_from :: "stix_note \<Rightarrow> stix2_object \<Rightarrow> stix2_object list" where
  "relations_from self source_entity =
     (case filter (\<lambda>rule. fst rule = obj_type source_entity) RELATIONSHIPS_MAPPER of
        [] \<Rightarrow> []
      | rule # _ \<Rightarrow>
          concat (map (\<lambda>(entity, relation).
            map (\<lambda>target_entity.
                   StixNote_create_rel self (obj_id source_entity) (obj_id target_entity)
                     relation)
              (filter (\<lambda>target_entity.
                         entity \<noteq> ''identity''
                         \<or> identity_class target_entity = Some ''class'')
                 (filter (\<lambda>ob. obj_type ob = entity) (objects self))))
            (snd rule)))"

definition relationships :: "stix_note \<Rightarrow> stix2_object list" where
  "relationships self = concat (map (relations_from self) (objects self))"

definition create_relations :: "stix_note \<Rightarrow> stix_note" where
  "create_relations self = self\<lparr>objects := objects self @ relationships self\<rparr>"

text \<open>
  \<^verbatim>\<open>StixNote.to_stix_objects\<close>: the report, and the list returned, whose last
  element is \<^verbatim>\<open>self.tlp\<close>, \<^verbatim>\<open>None\<close> for a marking \<^verbatim>\<open>TLP_MAP\<close> does not know.
\<close>

definition create_report :: "stix_note \<Rightarrow> report" where
  "create_report self =
     \<lparr>report_id = Pycti_report (sn_name self) (sn_published self),
      report_name = sn_name self,
      description = sn_text self,
      published_at = sn_published self,
      report_created_by_ref = obj_id (sn_author self),
      report_labels = labels self,
      report_report_types = report_types self,
      object_refs = map obj_id (objects self) @ [obj_id (sn_author self)],
      report_external_references = external_references self,
      object_marking_refs = sn_tlp self\<rparr>"

definition to_stix_objects :: "stix_note \<Rightarrow> stix2_object option list" where
  "to_stix_objects self =
     map Some (objects self @ [Stix2_Report (create_report self), sn_author self])
     @ [map_option Stix2_MarkingDefinition (sn_tlp self)]"

subsection \<open>Reference definitions and example inputs\<close>

text \<open>
  What escaping a URL value means, character by character, and its inverse: a
  backslash becomes two, a single quote gets a backslash before it, any other character
  stays.
\<close>

definition spec_escape_char :: "char \<Rightarrow> string" where
  "spec_escape_char c =
     (if c = bsl then [bsl, bsl] else if c = sq then [bsl, sq] else [c])"

fun spec_unescape :: "string \<Rightarrow> string" where
  "spec_unescape (c # d # cs) =
     (if c = bsl then d # spec_unescape cs else c # spec_unescape (d # cs))"
| "spec_unescape cs = cs"

text \<open>The one object the ThreatActor and the IntrusionSet builders make of an entity.\<close>

definition threat_actor_of :: "stix_note \<Rightarrow> note_entity \<Rightarrow> stix2_object" where
  "threat_actor_of self entity =
     Stix2_ThreatActor (Pycti ''threat-actor'' [entity_name entity]) (entity_name entity)
       (Some (obj_id (sn_author self)))"

definition intrusion_set_of :: "stix_note \<Rightarrow> note_entity \<Rightarrow> stix2_object" where
  "intrusion_set_of self entity =
     Stix2_IntrusionSet (Pycti ''intrusion-set'' [entity_name entity]) (entity_name entity)
       (Some (obj_id (sn_author self)))"

text \<open>Inputs for the examples: a world, a risk-score API, sessions, entities, notes.\<close>

definition example_world :: world where
  "example_world = \<lparr>clock = 0, uuid_counter = 0, events = []\<rparr>"

definition example_rf :: "string \<Rightarrow> string \<Rightarrow> int" where
  "example_rf category name = 50"

definition example_session ::
  "string list \<Rightarrow> bool \<Rightarrow> bool \<Rightarrow> bool \<Rightarrow> int option \<Rightarrow> stix_note" where
  "example_session tas p2ta ta2is ras thr =
     fst (StixNote_init tas ''white'' p2ta ta2is ras thr example_world)"

definition example_entity :: "string \<Rightarrow> string \<Rightarrow> string \<Rightarrow> note_entity" where
  "example_entity rf_type name ident =
     \<lparr>entity_type = rf_type, entity_name = name, entity_id = ident\<rparr>"

definition example_note :: "note_entity list \<Rightarrow> rf_note" where
  "example_note entities =
     \<lparr>note_title = ''Title'', note_text = ''Text'', note_published = ''2024-01-01'',
      note_validation_urls = [], note_topic = [], note_entities = entities,
      note_attachment = None\<rparr>"

definition example_low_rf :: "string \<Rightarrow> string \<Rightarrow> int" where
  "example_low_rf category name = - 5"

definition example_person :: note_entity where
  "example_person = example_entity ''Person'' ''Alice'' ''p1''"

definition example_known_ip :: note_entity where
  "example_known_ip = example_entity ''IpAddress'' ''1.2.3.4'' ''ta1''"

definition example_known_person :: note_entity where
  "example_known_person = example_entity ''Person'' ''Bob'' ''ta1''"

definition example_ip_note :: rf_note where
  "example_ip_note =
     example_note [example_entity ''IpAddress'' ''1.2.3.4'' ''e1'',
                   example_entity ''Malware'' ''Foo'' ''e2'']"

definition example_product_note :: rf_note where
  "example_product_note =
     example_note [example_entity ''Product'' ''Windows'' ''e1'',
                   example_entity ''Country'' ''France'' ''e2'',
                   example_entity ''Operation'' ''Aurora'' ''e3'']"

definition example_acme :: stix2_object where
  "example_acme =
     Stix2_Identity (Pycti ''identity'' [''Acme'', ''organization'']) ''Acme'' ''organization''
       (Some (obj_id create_author))"

definition example_finance :: stix2_object where
  "example_finance =
     Stix2_Identity (Pycti ''identity'' [''Finance'', ''class'']) ''Finance'' ''class''
       (Some (obj_id create_author))"

definition example_foo :: stix2_object where
  "example_foo =
     Stix2_Malware (Pycti ''malware'' [''Foo'']) ''Foo'' False (Some (obj_id create_author))"

definition example_graph :: stix_note where
  "example_graph =
     (example_session [] False False False None)
       \<lparr>objects := [example_acme, example_finance, example_foo]\<rparr>"

definition example_short_hash :: note_entity where
  "example_short_hash = example_entity ''Hash'' ''d41d8cd98f00b204e9800998ecf8427'' ''h1''"

definition example_acme_as_class :: stix2_object where
  "example_acme_as_class =
     Stix2_Identity (Pycti ''identity'' [''Acme'', ''organization'']) ''Acme'' ''class''
       (Some (obj_id create_author))"

subsection \<open>Predicates of the properties\<close>

text \<open>
  A list of objects is closed when both ends of every Relationship in it are ids of
  objects of the list.
\<close>

definition refs_closed :: "stix2_object list \<Rightarrow> bool" where
  "refs_closed objs =
     (\<forall>r \<in> set objs.
        (\<forall>s. source_ref r = Some s \<longrightarrow> s \<in> set (map obj_id objs)) \<and>
        (\<forall>t. target_ref r = Some t \<longrightarrow> t \<in> set (map obj_id objs)))"

text \<open>
  The types of the objects this module builds with \<^verbatim>\<open>created_by_ref\<close>, and
  the lists whose objects of these types refer to the author \<open>a\<close>.
\<close>

definition authored_types :: "string list" where
  "authored_types =
     [''indicator'', ''relationship'', ''attack-pattern'', ''identity'', ''threat-actor'',
      ''intrusion-set'', ''malware'', ''vulnerability'']"

definition authored :: "stix2_object \<Rightarrow> stix2_object list \<Rightarrow> bool" where
  "authored a objs =
     (\<forall>ob \<in> set objs.
        obj_type ob \<in> set authored_types \<longrightarrow> created_by_ref ob = Some (obj_id a))"

text \<open>A builder as its constructor leaves it: nothing cached, the author kept.\<close>

definition fresh_for :: "stix2_object \<Rightarrow> rf_object \<Rightarrow> bool" where
  "fresh_for a ob =
     (case ob of
        Obj_Indicator b \<Rightarrow> ind_author b = a \<and> built b = None
      | Obj_Entity e \<Rightarrow> ent_author e = a \<and> stix_obj e = None
      | Obj_Software s \<Rightarrow> software_object s = None
      | Obj_Location l \<Rightarrow> location_object l = None
      | Obj_Campaign c \<Rightarrow> campaign_object c = None)"

text \<open>What one step of the conversion may do to the session's objects.\<close>

definition new_objects_ok :: "stix_note \<Rightarrow> stix_note \<Rightarrow> bool" where
  "new_objects_ok self self' =
     (sn_author self' = sn_author self \<and>
      (\<exists>new. objects self' = objects self @ new \<and> refs_closed new
         \<and> authored (sn_author self) new))"

text \<open>
  The pairs \<^verbatim>\<open>create_relations\<close> links, by the same loops: the source entity,
  the target entity and the relation of each relationship it appends, in order.
\<close>

definition edges_from ::
  "stix_note \<Rightarrow> stix2_object \<Rightarrow> (stix2_object \<times> stix2_object \<times> string) list" where
  "edges_from self source_entity =
     (case filter (\<lambda>rule. fst rule = obj_type source_entity) RELATIONSHIPS_MAPPER of
        [] \<Rightarrow> []
      | rule # _ \<Rightarrow>
          concat (map (\<lambda>(entity, relation).
            map (\<lambda>target_entity. (source_entity, target_entity, relation))
              (filter (\<lambda>target_entity.
                         entity \<noteq> ''identity''
                         \<or> identity_class target_entity = Some ''class'')
                 (filter (\<lambda>ob. obj_type ob = entity) (objects self))))
            (snd rule)))"

definition edges :: "stix_note \<Rightarrow> (stix2_object \<times> stix2_object \<times> string) list" where
  "edges self = concat (map (edges_from self) (objects self))"

definition edge_relationship ::
  "stix_note \<Rightarrow> stix2_object \<times> stix2_object \<times> string \<Rightarrow> stix2_object" where
  "edge_relationship self e =
     (case e of (s, t, relation) \<Rightarrow> StixNote_create_rel self (obj_id s) (obj_id t) relation)"

text \<open>
  Ids tell objects apart as far as relationship inference looks at them: two objects
  of a list with the same id have the same type and the same identity class.
\<close>

definition ids_consistent :: "stix2_object list \<Rightarrow> bool" where
  "ids_consistent objs =
     (\<forall>x \<in> set objs. \<forall>y \<in> set objs.
        obj_id x = obj_id y \<longrightarrow> obj_type x = obj_type y \<and> identity_class x = identity_class y)"

text \<open>
  Events of the gate, and a world that moved on without the gate: no
  \<^verbatim>\<open>log_info\<close>, and no call of the risk-score API unless scores are surfaced.
\<close>

fun is_log_info :: "event \<Rightarrow> bool" where
  "is_log_info (Log_info msg) = True"
| "is_log_info _ = False"

fun is_get_risk_score :: "event \<Rightarrow> bool" where
  "is_get_risk_score (Get_risk_score category name) = True"
| "is_get_risk_score _ = False"

definition ungated :: "bool \<Rightarrow> world \<Rightarrow> world \<Rightarrow> bool" where
  "ungated ras w w' =
     (\<exists>evs. events w' = events w @ evs \<and> filter is_log_info evs = []
        \<and> (\<not> ras \<longrightarrow> filter is_get_risk_score evs = []))"

text \<open>The session with its threshold set to zero, and a result read that way.\<close>

definition zero_threshold :: "stix_note \<Rightarrow> stix_note" where
  "zero_threshold self = self\<lparr>risk_threshold := Some 0\<rparr>"

definition with_zero_threshold ::
  "error + (stix_note \<times> world) \<Rightarrow> error + (stix_note \<times> world)" where
  "with_zero_threshold r =
     (case r of Inl e \<Rightarrow> Inl e | Inr (self, w) \<Rightarrow> Inr (zero_threshold self, w))"

section \<open>Properties\<close>

subsection \<open>The detection rule's name\<close>

lemma str_split_first:
  "str_split sep s \<noteq> [] \<and> hd (str_split sep s) = takeWhile (\<lambda>c. c \<noteq> sep) s"
  by (induction s) (auto split: list.splits)

lemma index_at_split0:
  "index_at (str_split sep s) 0 = Inr (takeWhile (\<lambda>c. c \<noteq> sep) s)"
  using str_split_first [of sep s] by (cases "str_split sep s") (auto simp: index_at_def)

text \<open>
  Claim C3, as stated, fails: the name of the rule built for the file \<open>a.b.c\<close> is
  \<open>a\<close>, not \<open>a.b\<close>. \<^verbatim>\<open>name.split(".")[0]\<close> keeps what stands before the first
  period.
\<close>

theorem detection_rule_name_counterexample:
  "map_sum id ent_name (DetectionRule_init ''a.b.c'' ''yara'' ''rule'' create_author)
     = Inr ''a''
   \<and> map_sum id ent_name (DetectionRule_init ''a.b.c'' ''yara'' ''rule'' create_author)
     \<noteq> Inr ''a.b''"
  by (simp add: DetectionRule_init_def index_at_def)

text \<open>
  Claim C3, amended: for every file name and every accepted rule language, the
  builder's name, and the name of the indicator it builds, is the file name up to its
  first period (the whole file name when it has none).
\<close>

theorem detection_rule_name_before_first_period:
  "rf_type \<in> {''yara'', ''snort'', ''sigma''} \<Longrightarrow>
   (\<exists>rule. DetectionRule_init name rf_type content author = Inr rule
      \<and> ent_name rule = takeWhile (\<lambda>c. c \<noteq> CHR ''.'') name
      \<and> (\<exists>ob w'. RFStixEntity_to_stix_objects rule w
                     = Inr ([ob], rule\<lparr>stix_obj := Some ob\<rparr>, w')
            \<and> obj_name ob = Some (takeWhile (\<lambda>c. c \<noteq> CHR ''.'') name)))"
  by (auto simp: DetectionRule_init_def index_at_split0 RFStixEntity_to_stix_objects_def
      create_stix_objects_def datetime_now_def Let_def)

theorem detection_rule_name_before_first_period_witness:
  "''yara'' \<in> {''yara'', ''snort'', ''sigma''} \<and>
   (\<exists>rule. DetectionRule_init ''my.rule.yar'' ''yara'' ''rule'' create_author = Inr rule
      \<and> ent_name rule = ''my''
      \<and> (\<exists>ob w'. RFStixEntity_to_stix_objects rule example_world
                     = Inr ([ob], rule\<lparr>stix_obj := Some ob\<rparr>, w')
            \<and> obj_name ob = Some ''my''))"
  using detection_rule_name_before_first_period
          [of "''yara''" "''my.rule.yar''" "''rule''" create_author example_world]
  by simp

subsection \<open>The hash algorithm\<close>

lemma hash_entity_raises:
  assumes "determine_algorithm (entity_name entity) = Inl err"
    and "entity_type entity = ''Hash''"
    and "entity_id entity \<notin> set (sn_tas self)"
  shows "from_json_entity rf self entity w = Inl err"
  using assms
  by (simp add: from_json_entity_def Let_def ENTITY_TYPE_MAPPER_def FileHash_init_def)

text \<open>
  Claim C4: the algorithm of a FileHash is decided by the length of the string alone.
  For the lengths 64, 40 and 32, \<^verbatim>\<open>_determine_algorithm\<close> gives SHA-256, SHA-1
  and MD5, and the constructor returns the builder that carries this algorithm. For
  any other length \<^verbatim>\<open>_determine_algorithm\<close>, and with it the constructor, raises
  ConversionError, so that no builder and no object exists, and the conversion of a
  Hash entity that reaches the builder raises the same error: the entity is not
  skipped.
\<close>

theorem filehash_algorithm_by_length:
  "(length name = 64 \<longrightarrow>
      determine_algorithm name = Inr ''SHA-256''
      \<and> FileHash_init name author = Inr (Indicator_init (FileHash ''SHA-256'') name author))
   \<and> (length name = 40 \<longrightarrow>
      determine_algorithm name = Inr ''SHA-1''
      \<and> FileHash_init name author = Inr (Indicator_init (FileHash ''SHA-1'') name author))
   \<and> (length name = 32 \<longrightarrow>
      determine_algorithm name = Inr ''MD5''
      \<and> FileHash_init name author = Inr (Indicator_init (FileHash ''MD5'') name author))
   \<and> (length name \<notin> {64, 40, 32} \<longrightarrow>
      (\<exists>msg. determine_algorithm name = Inl (ConversionError msg)
         \<and> FileHash_init name author = Inl (ConversionError msg)
         \<and> (entity_type entity = ''Hash'' \<and> entity_name entity = name
              \<and> entity_id entity \<notin> set (sn_tas self) \<longrightarrow>
              from_json_entity rf self entity w = Inl (ConversionError msg))))"
proof (intro conjI impI)
  assume n: "length name \<notin> {64, 40, 32}"
  let ?msg = "''Could not determine hash type for '' @ name @
         ''. Only MD5, SHA1 and SHA256 hashes are supported''"
  from n have d: "determine_algorithm name = Inl (ConversionError ?msg)"
    by (simp add: determine_algorithm_def)
  then have f: "FileHash_init name author = Inl (ConversionError ?msg)"
    by (simp add: FileHash_init_def)
  have "entity_type entity = ''Hash'' \<and> entity_name entity = name
              \<and> entity_id entity \<notin> set (sn_tas self) \<longrightarrow>
              from_json_entity rf self entity w = Inl (ConversionError ?msg)"
    using d hash_entity_raises [of entity "ConversionError ?msg" self rf w] by blast
  with d f show "\<exists>msg. determine_algorithm name = Inl (ConversionError msg)
         \<and> FileHash_init name author = Inl (ConversionError msg)
         \<and> (entity_type entity = ''Hash'' \<and> entity_name entity = name
              \<and> entity_id entity \<notin> set (sn_tas self) \<longrightarrow>
              from_json_entity rf self entity w = Inl (ConversionError msg))"
    by (intro exI conjI)
qed (simp_all add: determine_algorithm_def FileHash_init_def)

theorem filehash_algorithm_by_length_witness:
  "length ''e3b0c44298fc1c149afbf4c8996fb92427ae41e4649b934ca495991b7852b855'' = 64
   \<and> FileHash_init ''e3b0c44298fc1c149afbf4c8996fb92427ae41e4649b934ca495991b7852b855''
        create_author
       = Inr (Indicator_init (FileHash ''SHA-256'')
                ''e3b0c44298fc1c149afbf4c8996fb92427ae41e4649b934ca495991b7852b855''
                create_author)
   \<and> length ''da39a3ee5e6b4b0d3255bfef95601890afd80709'' = 40
   \<and> FileHash_init ''da39a3ee5e6b4b0d3255bfef95601890afd80709'' create_author
       = Inr (Indicator_init (FileHash ''SHA-1'') ''da39a3ee5e6b4b0d3255bfef95601890afd80709''
                create_author)
   \<and> length ''d41d8cd98f00b204e9800998ecf8427e'' = 32
   \<and> FileHash_init ''d41d8cd98f00b204e9800998ecf8427e'' create_author
       = Inr (Indicator_init (FileHash ''MD5'') ''d41d8cd98f00b204e9800998ecf8427e''
                create_author)
   \<and> length ''d41d8cd98f00b204e9800998ecf8427'' \<notin> {64, 40, 32}
   \<and> entity_type example_short_hash = ''Hash''
   \<and> entity_name example_short_hash = ''d41d8cd98f00b204e9800998ecf8427''
   \<and> entity_id example_short_hash \<notin> set (sn_tas (example_session [] False False False None))
   \<and> (\<exists>msg. determine_algorithm ''d41d8cd98f00b204e9800998ecf8427''
               = Inl (ConversionError msg)
         \<and> FileHash_init ''d41d8cd98f00b204e9800998ecf8427'' create_author
               = Inl (ConversionError msg)
         \<and> from_json_entity example_rf (example_session [] False False False None)
               example_short_hash example_world = Inl (ConversionError msg))"
proof -
  have e: "entity_type example_short_hash = ''Hash''"
    "entity_name example_short_hash = ''d41d8cd98f00b204e9800998ecf8427''"
    "entity_id example_short_hash \<notin> set (sn_tas (example_session [] False False False None))"
    by (simp_all add: example_short_hash_def example_entity_def example_session_def
        StixNote_init_def datetime_now_def)
  have l: "length ''d41d8cd98f00b204e9800998ecf8427'' \<notin> {64, 40, 32}"
    "length ''e3b0c44298fc1c149afbf4c8996fb92427ae41e4649b934ca495991b7852b855'' = 64"
    "length ''da39a3ee5e6b4b0d3255bfef95601890afd80709'' = 40"
    "length ''d41d8cd98f00b204e9800998ecf8427e'' = 32"
    by simp_all
  note a = filehash_algorithm_by_length
      [of "''e3b0c44298fc1c149afbf4c8996fb92427ae41e4649b934ca495991b7852b855''" create_author]
  note b = filehash_algorithm_by_length
      [of "''da39a3ee5e6b4b0d3255bfef95601890afd80709''" create_author]
  note c = filehash_algorithm_by_length [of "''d41d8cd98f00b204e9800998ecf8427e''" create_author]
  note d = filehash_algorithm_by_length
      [of "''d41d8cd98f00b204e9800998ecf8427''" create_author example_short_hash
         "example_session [] False False False None" example_rf example_world]
  from a [THEN conjunct1, THEN mp, OF l(2), THEN conjunct2]
    b [THEN conjunct2, THEN conjunct1, THEN mp, OF l(3), THEN conjunct2]
    c [THEN conjunct2, THEN conjunct2, THEN conjunct1, THEN mp, OF l(4), THEN conjunct2]
    d [THEN conjunct2, THEN conjunct2, THEN conjunct2, THEN mp, OF l(1)]
    e l
  show ?thesis by auto
qed

subsection \<open>The URL pattern\<close>

lemma str_replace_single:
  "str_replace [a] new s = concat (map (\<lambda>c. if c = a then new else [c]) s)"
  by (induction s) auto

lemma sq_neq_bsl: "sq \<noteq> bsl" "bsl \<noteq> sq"
  by (simp_all add: sq_def bsl_def)

lemma concat_map_concat_map:
  "concat (map f (concat (map g xs))) = concat (map (\<lambda>x. concat (map f (g x))) xs)"
  by (induction xs) auto

lemma spec_unescape_step:
  "spec_unescape (spec_escape_char c @ rest) = c # spec_unescape rest"
  by (cases rest) (auto simp: spec_escape_char_def sq_neq_bsl)

lemma spec_unescape_escape:
  "spec_unescape (concat (map spec_escape_char s)) = s"
  by (induction s) (simp_all add: spec_unescape_step)

lemma url_pattern_concat:
  "URL_create_pattern name =
     ''[url:value = '' @ [sq] @ concat (map spec_escape_char name) @ [sq] @ '']''"
  unfolding URL_create_pattern_def Let_def str_replace_single concat_map_concat_map
  apply (rule arg_cong [where f = "\<lambda>x. ''[url:value = '' @ [sq] @ x @ [sq] @ '']''"])
  apply (rule arg_cong [where f = concat])
  apply (rule map_cong [OF refl])
  apply (auto simp: spec_escape_char_def sq_neq_bsl)
  done

text \<open>
  Claim C5: the pattern of a URL builder is \<^verbatim>\<open>[url:value = '...']\<close> around the
  value with each of its characters escaped once, in order: the two replacements, the
  backslashes first, amount to escaping character by character, and unescaping gives
  the value back. For the value \<^verbatim>\<open>a'\b\<close> the pattern holds \<^verbatim>\<open>a\'\\b\<close>.
\<close>

theorem url_pattern_escapes_each_once:
  "create_pattern (Indicator_init URL name author)
     = ''[url:value = '' @ [sq] @ concat (map spec_escape_char name) @ [sq] @ '']''
   \<and> spec_unescape (concat (map spec_escape_char name)) = name
   \<and> create_pattern (Indicator_init URL [CHR ''a'', sq, bsl, CHR ''b''] author)
     = ''[url:value = '' @ [sq] @ [CHR ''a'', bsl, sq, bsl, bsl, CHR ''b''] @ [sq] @ '']''"
  by (simp add: create_pattern_def Indicator_init_def url_pattern_concat spec_unescape_escape)
    (simp add: spec_escape_char_def sq_def bsl_def)

subsection \<open>The cache of an indicator builder\<close>

text \<open>
  Claim C7: on an indicator builder of any class and in any state,
  \<^verbatim>\<open>to_stix_objects\<close> returns three objects, and a second call on the same instance
  returns the same three objects (so the same ids), leaving the instance and the world
  as the first call left them: nothing is built again.
\<close>

theorem indicator_to_stix_objects_cached:
  "\<exists>objs b1 w1.
     Indicator_to_stix_objects b w = Inr (objs, b1, w1)
     \<and> Indicator_to_stix_objects b1 w1 = Inr (objs, b1, w1)
     \<and> built b1 = Some objs
     \<and> length objs = 3"
  by (auto simp: Indicator_to_stix_objects_def built_def Indicator_create_stix_objects_def
      create_indicator_def Indicator_create_rel_def datetime_now_def Let_def
      split: option.splits prod.splits sum.splits)

subsection \<open>The dispatcher's first two branches\<close>

text \<open>
  Claim C8: an entity of type Person, in a session with \<^verbatim>\<open>person_to_ta\<close>, goes to
  the ThreatActor builder whatever else holds; any other entity whose id is among the
  known threat actors goes to IntrusionSet exactly when \<^verbatim>\<open>ta_to_intrusion_set\<close> is
  set and its type is not Person, and to ThreatActor otherwise, whatever its type.
\<close>

theorem dispatcher_branch_order:
  "(person_to_ta self \<and> entity_type entity = ''Person'' \<longrightarrow>
      from_json_entity rf self entity w
        = Inr (self\<lparr>objects := objects self @ [threat_actor_of self entity]\<rparr>, w))
   \<and> (\<not> (person_to_ta self \<and> entity_type entity = ''Person'')
        \<and> entity_id entity \<in> set (sn_tas self) \<longrightarrow>
      from_json_entity rf self entity w
        = Inr (self\<lparr>objects := objects self @
                 [if ta_to_intrusion_set self \<and> entity_type entity \<noteq> ''Person''
                  then intrusion_set_of self entity else threat_actor_of self entity]\<rparr>, w))"
  by (simp add: from_json_entity_def Let_def extend_objects_def to_stix_objects_of_def
      RFStixEntity_to_stix_objects_def RFStixEntity_init_def create_stix_objects_def
      threat_actor_of_def intrusion_set_of_def)

theorem dispatcher_branch_order_witness:
  "person_to_ta (example_session [] True False False None)
   \<and> entity_type example_person = ''Person''
   \<and> from_json_entity example_rf (example_session [] True False False None) example_person
        example_world
      = Inr ((example_session [] True False False None)
               \<lparr>objects := [threat_actor_of (example_session [] True False False None)
                              example_person]\<rparr>, example_world)
   \<and> \<not> (person_to_ta (example_session [''ta1''] True True False None)
          \<and> entity_type example_known_ip = ''Person'')
   \<and> entity_id example_known_ip \<in> set (sn_tas (example_session [''ta1''] True True False None))
   \<and> from_json_entity example_rf (example_session [''ta1''] True True False None)
        example_known_ip example_world
      = Inr ((example_session [''ta1''] True True False None)
               \<lparr>objects := [intrusion_set_of (example_session [''ta1''] True True False None)
                              example_known_ip]\<rparr>, example_world)
   \<and> \<not> (person_to_ta (example_session [''ta1''] False True False None)
          \<and> entity_type example_known_person = ''Person'')
   \<and> entity_id example_known_person
        \<in> set (sn_tas (example_session [''ta1''] False True False None))
   \<and> from_json_entity example_rf (example_session [''ta1''] False True False None)
        example_known_person example_world
      = Inr ((example_session [''ta1''] False True False None)
               \<lparr>objects := [threat_actor_of (example_session [''ta1''] False True False None)
                              example_known_person]\<rparr>, example_world)"
  using
    dispatcher_branch_order
      [of "example_session [] True False False None" example_person example_rf example_world]
    dispatcher_branch_order
      [of "example_session [''ta1''] True True False None" example_known_ip example_rf
         example_world]
    dispatcher_branch_order
      [of "example_session [''ta1''] False True False None" example_known_person example_rf
         example_world]
  by (simp add: example_session_def StixNote_init_def datetime_now_def example_person_def
      example_known_ip_def example_known_person_def example_entity_def)

subsection \<open>Report types\<close>

lemma report_types_loop_eq:
  "report_types_loop topics ret w =
     (ret \<union> set (List.map_filter (\<lambda>t. report_type_mapper (topic_name t)) topics),
      w\<lparr>events := events w @
           map (\<lambda>t. Log_warning (''Could not map a report type for type '' @ topic_name t))
             (filter (\<lambda>t. report_type_mapper (topic_name t) = None) topics)\<rparr>)"
  by (induction topics arbitrary: ret w)
     (auto simp: List.map_filter_simps log_warning_def Let_def split: option.splits)

text \<open>
  Claim C9: the report types are the set of the table's values for the topics the
  table knows; each topic it does not know adds one warning, in order, and nothing
  else happens. The topics Indicator and UnknownTopic give the one report type
  Indicator and the one warning for UnknownTopic.
\<close>

theorem report_types_dedup_and_warn:
  "create_report_types topics w =
     (set (List.map_filter (\<lambda>t. report_type_mapper (topic_name t)) topics),
      w\<lparr>events := events w @
           map (\<lambda>t. Log_warning (''Could not map a report type for type '' @ topic_name t))
             (filter (\<lambda>t. report_type_mapper (topic_name t) = None) topics)\<rparr>)
   \<and> create_report_types [\<lparr>topic_name = ''Indicator''\<rparr>, \<lparr>topic_name = ''UnknownTopic''\<rparr>] w =
     ({''Indicator''},
      w\<lparr>events := events w @
           [Log_warning ''Could not map a report type for type UnknownTopic'']\<rparr>)"
  by (simp add: create_report_types_def report_types_loop_eq List.map_filter_simps
      report_type_mapper_def)

subsection \<open>What the builders and the conversion add to the object list\<close>

lemmas example_defs =
  from_json_def example_note_def example_entity_def
  example_session_def StixNote_init_def datetime_now_def uuid4_def example_world_def
  create_report_types_def from_json_entity_def Let_def ENTITY_TYPE_MAPPER_def
  risk_gate_def risk_annotate_def extend_objects_def to_stix_objects_of_def
  Indicator_to_stix_objects_def Indicator_create_stix_objects_def create_indicator_def
  Indicator_create_rel_def built_def Indicator_init_def RFStixEntity_init_def
  RFStixEntity_to_stix_objects_def create_stix_objects_def from_json_attachment_def
  Software_init_def Software_to_stix_objects_def Location_init_def Location_to_stix_objects_def
  Campaign_init_def Campaign_to_stix_objects_def rf_type_to_stix_def create_id_class_def
  Identity_type_to_class_def INDICATOR_TYPE_URL_MAPPER_def get_risk_score_def
  set_risk_score_def log_info_def log_warning_def example_rf_def TLP_MAP_def lower_char_def
  create_author_def create_obs_def

lemma mapper_fresh:
  "ENTITY_TYPE_MAPPER rf_type = Some cls \<Longrightarrow> cls name rf_type a = Inr ob \<Longrightarrow> fresh_for a ob"
  unfolding ENTITY_TYPE_MAPPER_def
  by (auto simp: fresh_for_def Indicator_init_def built_def RFStixEntity_init_def
      Software_init_def Campaign_init_def FileHash_init_def Location_init_def
      split: if_splits sum.splits option.splits)

lemma set_risk_score_fresh: "fresh_for a ob \<Longrightarrow> fresh_for a (set_risk_score ob v)"
  by (auto simp: fresh_for_def set_risk_score_def built_def split: rf_object.splits option.splits)

lemma create_obs_props:
  "source_ref (create_obs b) = None" "target_ref (create_obs b) = None"
  "created_by_ref (create_obs b) = None" "obj_type (create_obs b) \<notin> set authored_types"
  "create_obs (b\<lparr>stix_indicator := x\<rparr>) = create_obs b"
  by (auto simp: create_obs_def authored_types_def split: indicator_class.splits)

lemma indicator_triple:
  "built b = None \<Longrightarrow> Indicator_to_stix_objects b w = Inr (objs, b', w') \<Longrightarrow>
   (\<exists>i r. objs = [i, create_obs b, r] \<and> obj_type i = ''indicator''
      \<and> created_by_ref i = Some (obj_id (ind_author b)) \<and> source_ref i = None
      \<and> target_ref i = None
      \<and> r = Stix2_Relationship (Pycti_relationship ''based-on'' (obj_id i) (obj_id (create_obs b)))
              ''based-on'' (obj_id i) (obj_id (create_obs b)) (Some (obj_id (ind_author b))))
   \<and> events w' = events w"
  by (auto simp: Indicator_to_stix_objects_def
      Indicator_create_stix_objects_def create_indicator_def Indicator_create_rel_def
      datetime_now_def Let_def built_def create_obs_props
      split: option.splits prod.splits sum.splits)

lemma to_stix_objects_of_fresh:
  "fresh_for a ob \<Longrightarrow> to_stix_objects_of ob w = Inr (objs, w') \<Longrightarrow>
   refs_closed objs \<and> authored a objs \<and> events w' = events w"
  apply (cases ob)
  subgoal for b
    by (auto simp: fresh_for_def to_stix_objects_of_def refs_closed_def authored_def
      create_obs_props split: sum.splits prod.splits dest!: indicator_triple)
  subgoal for e
    by (auto simp: fresh_for_def to_stix_objects_of_def RFStixEntity_to_stix_objects_def
      create_stix_objects_def datetime_now_def Let_def refs_closed_def authored_def
      authored_types_def
      split: option.splits prod.splits sum.splits entity_class.splits)
  subgoal for s
    by (auto simp: fresh_for_def to_stix_objects_of_def Software_to_stix_objects_def
      Let_def refs_closed_def authored_def authored_types_def)
  subgoal for l
    by (auto simp: fresh_for_def to_stix_objects_of_def Location_to_stix_objects_def uuid4_def
      Let_def refs_closed_def authored_def authored_types_def)
  subgoal for c
    by (auto simp: fresh_for_def to_stix_objects_of_def Campaign_to_stix_objects_def uuid4_def
      Let_def refs_closed_def authored_def authored_types_def)
  done

lemma extend_objects_Inr:
  "extend_objects self r = Inr (self', w') \<Longrightarrow>
   \<exists>objs. r = Inr (objs, w') \<and> self' = self\<lparr>objects := objects self @ objs\<rparr>"
  by (auto simp: extend_objects_def split: sum.splits)

lemma risk_annotate_fresh:
  "risk_annotate rf self rf_type name ob score w = Inr (ob', w') \<Longrightarrow> fresh_for a ob \<Longrightarrow>
   fresh_for a ob'"
  by (auto simp: risk_annotate_def get_risk_score_def Let_def set_risk_score_fresh
      split: option.splits if_splits)

lemma new_objects_ok_refl: "new_objects_ok self self"
  by (simp add: new_objects_ok_def refs_closed_def authored_def)

lemma refs_closed_append:
  "refs_closed xs \<Longrightarrow> refs_closed ys \<Longrightarrow> refs_closed (xs @ ys)"
  by (auto simp: refs_closed_def)

lemma authored_append: "authored a xs \<Longrightarrow> authored a ys \<Longrightarrow> authored a (xs @ ys)"
  by (auto simp: authored_def)

lemma new_objects_ok_trans:
  "new_objects_ok s1 s2 \<Longrightarrow> new_objects_ok s2 s3 \<Longrightarrow> new_objects_ok s1 s3"
  unfolding new_objects_ok_def
  by (metis append.assoc refs_closed_append authored_append)

lemma extend_fresh_ok:
  "extend_objects self (to_stix_objects_of ob w) = Inr (self', w') \<Longrightarrow>
   fresh_for (sn_author self) ob \<Longrightarrow> new_objects_ok self self'"
  by (auto simp: new_objects_ok_def dest!: extend_objects_Inr dest: to_stix_objects_of_fresh)

lemma init_fresh: "fresh_for a (Obj_Entity (RFStixEntity_init cls name rf_type a))"
  by (simp add: fresh_for_def RFStixEntity_init_def)

lemma from_json_entity_ok:
  assumes "from_json_entity rf self entity w = Inr (self', w')"
  shows "new_objects_ok self self'"
proof -
  let ?t = "entity_type entity" and ?n = "entity_name entity"
  consider (ta) "person_to_ta self \<and> ?t = ''Person'' \<or> entity_id entity \<in> set (sn_tas self)"
    | (src) "\<not> (person_to_ta self \<and> ?t = ''Person'')" "entity_id entity \<notin> set (sn_tas self)"
        "?t = ''Source''"
    | (unk) "\<not> (person_to_ta self \<and> ?t = ''Person'')" "entity_id entity \<notin> set (sn_tas self)"
        "?t \<noteq> ''Source''" "ENTITY_TYPE_MAPPER ?t = None"
    | (bld) cls where "\<not> (person_to_ta self \<and> ?t = ''Person'')"
        "entity_id entity \<notin> set (sn_tas self)"
        "?t \<noteq> ''Source''" "ENTITY_TYPE_MAPPER ?t = Some cls"
    by (cases "ENTITY_TYPE_MAPPER ?t") auto
  then show ?thesis
  proof cases
    case ta
    with assms show ?thesis
      by (auto simp: from_json_entity_def Let_def split: if_splits
          intro: extend_fresh_ok [OF _ init_fresh])
  next
    case src
    with assms show ?thesis
      by (auto simp: from_json_entity_def Let_def new_objects_ok_def refs_closed_def
          authored_def)
  next
    case unk
    with assms show ?thesis
      by (auto simp: from_json_entity_def Let_def new_objects_ok_refl)
  next
    case bld
    from bld assms obtain ob where ob: "cls ?n ?t (sn_author self) = Inr ob"
      by (auto simp: from_json_entity_def Let_def split: sum.splits)
    have fr: "fresh_for (sn_author self) ob"
      using mapper_fresh [OF bld(4) ob] .
    show ?thesis
    proof (cases "?t \<in> set [''IpAddress'', ''InternetDomainName'', ''URL'', ''Hash'']")
      case False
      with bld assms ob fr show ?thesis
        by (auto simp: from_json_entity_def Let_def intro: extend_fresh_ok)
    next
      case True
      with bld assms ob obtain g w1 where g: "risk_gate rf self ?t ?n w = Inr (g, w1)"
        by (auto simp: from_json_entity_def Let_def split: sum.splits)
      show ?thesis
      proof (cases g)
        case Skip
        with True bld assms ob g show ?thesis
          by (auto simp: from_json_entity_def Let_def new_objects_ok_refl)
      next
        case (Pass score)
        with True bld assms ob g obtain ob' w2 where
          an: "risk_annotate rf self ?t ?n ob score w1 = Inr (ob', w2)"
          and ex: "extend_objects self (to_stix_objects_of ob' w2) = Inr (self', w')"
          by (auto simp: from_json_entity_def Let_def split: sum.splits)
        from extend_fresh_ok [OF ex risk_annotate_fresh [OF an fr]] show ?thesis .
      qed
    qed
  qed
qed

lemma from_json_entities_ok:
  "from_json_entities rf self entities w = Inr (self', w') \<Longrightarrow> new_objects_ok self self'"
proof (induction entities arbitrary: self w)
  case Nil
  then show ?case by (simp add: new_objects_ok_refl)
next
  case (Cons e es)
  then show ?case
    by (auto split: sum.splits intro: new_objects_ok_trans dest: from_json_entity_ok)
qed

lemma from_json_attachment_ok:
  "from_json_attachment self att w = Inr (self', w') \<Longrightarrow> new_objects_ok self self'"
  by (auto simp: from_json_attachment_def new_objects_ok_refl DetectionRule_init_def fresh_for_def
      split: option.splits sum.splits if_splits intro!: extend_fresh_ok)

lemma from_json_ok:
  assumes "from_json rf self attr w = Inr (self', w')"
  shows "new_objects_ok self self'"
proof -
  from assms obtain refs self2 w2 where
    a: "from_json_entities rf
          (self\<lparr>sn_name := Some (note_title attr), sn_text := Some (note_text attr),
                sn_published := Given (note_published attr), external_references := refs,
                report_types := Some (fst (create_report_types (note_topic attr) w)),
                labels := Some (map topic_name (note_topic attr))\<rparr>)
          (note_entities attr) (snd (create_report_types (note_topic attr) w)) = Inr (self2, w2)"
    and b: "from_json_attachment self2 (note_attachment attr) w2 = Inr (self', w')"
    by (auto simp: from_json_def Let_def split: sum.splits prod.splits)
  from from_json_entities_ok [OF a] from_json_attachment_ok [OF b]
  show ?thesis
    by (auto simp: new_objects_ok_def intro: refs_closed_append authored_append)
qed

subsection \<open>Relationship inference\<close>

lemma relations_from_edges:
  "relations_from self s = map (edge_relationship self) (edges_from self s)"
  unfolding relations_from_def edges_from_def
  by (auto simp: map_concat edge_relationship_def comp_def split: list.splits
      intro!: arg_cong [where f = concat])

lemma relationships_edges:
  "relationships self = map (edge_relationship self) (edges self)"
proof -
  have "relations_from self = (\<lambda>s. map (edge_relationship self) (edges_from self s))"
    by (rule ext) (rule relations_from_edges)
  then show ?thesis
    by (simp add: relationships_def edges_def map_concat comp_def)
qed

lemma edges_from_props:
  "(s, t, relation) \<in> set (edges_from self src) \<Longrightarrow>
   s = src \<and> t \<in> set (objects self)
   \<and> obj_type s \<in> {''threat-actor'', ''intrusion-set'', ''indicator'', ''malware''}
   \<and> (obj_type t = ''identity'' \<longrightarrow> identity_class t = Some ''class'')"
  unfolding edges_from_def RELATIONSHIPS_MAPPER_def
  by (auto split: if_splits)

lemma edges_props:
  "(s, t, relation) \<in> set (edges self) \<Longrightarrow>
   s \<in> set (objects self) \<and> t \<in> set (objects self)
   \<and> obj_type s \<in> {''threat-actor'', ''intrusion-set'', ''indicator'', ''malware''}
   \<and> (obj_type t = ''identity'' \<longrightarrow> identity_class t = Some ''class'')"
  unfolding edges_def by (auto dest: edges_from_props)

lemma relationships_props:
  assumes "r \<in> set (relationships self)"
  shows "\<exists>s t relation. s \<in> set (objects self) \<and> t \<in> set (objects self)
           \<and> r = StixNote_create_rel self (obj_id s) (obj_id t) relation"
proof -
  from assms obtain e where e: "e \<in> set (edges self)" "r = edge_relationship self e"
    by (auto simp: relationships_edges)
  obtain s t relation where "e = (s, t, relation)" by (cases e)
  with e edges_props [of s t relation self] show ?thesis
    by (auto simp: edge_relationship_def)
qed

lemma relationships_edge:
  assumes "r \<in> set (relationships self)"
  shows "\<exists>s t relation. (s, t, relation) \<in> set (edges self)
           \<and> r = StixNote_create_rel self (obj_id s) (obj_id t) relation"
proof -
  from assms obtain e where e: "e \<in> set (edges self)" "r = edge_relationship self e"
    by (auto simp: relationships_edges)
  obtain s t relation where "e = (s, t, relation)" by (cases e)
  with e show ?thesis
    by (auto simp: edge_relationship_def)
qed

lemma create_relations_closed:
  "refs_closed (objects self) \<Longrightarrow> refs_closed (objects (create_relations self))"
  by (auto simp: refs_closed_def create_relations_def StixNote_create_rel_def
      dest!: relationships_props)

subsection \<open>Referential closure of the report\<close>

text \<open>
  Claim C1: when \<^verbatim>\<open>from_json\<close> has converted a note in a session whose object
  list was closed before (an empty list is), and \<^verbatim>\<open>create_relations\<close> has
  extended the list, the report's \<^verbatim>\<open>object_refs\<close> hold the id of every object of
  the list and the author's id, hence both ends of every relationship of the list, the
  inferred ones among them; and the report is in the list \<^verbatim>\<open>to_stix_objects\<close>
  returns.
\<close>

theorem report_refs_closed:
  assumes "refs_closed (objects self)"
    and "from_json rf self attr w = Inr (self1, w1)"
  shows "(\<forall>ob \<in> set (objects (create_relations self1)).
            obj_id ob \<in> set (object_refs (create_report (create_relations self1))))
       \<and> obj_id (sn_author self1) \<in> set (object_refs (create_report (create_relations self1)))
       \<and> (\<forall>r \<in> set (objects (create_relations self1)). \<forall>i.
            source_ref r = Some i \<or> target_ref r = Some i \<longrightarrow>
            i \<in> set (object_refs (create_report (create_relations self1))))
       \<and> set (relationships self1) \<subseteq> set (objects (create_relations self1))
       \<and> Some (Stix2_Report (create_report (create_relations self1)))
            \<in> set (to_stix_objects (create_relations self1))"
proof -
  from from_json_ok [OF assms(2)] assms(1) have "refs_closed (objects self1)"
    by (auto simp: new_objects_ok_def intro: refs_closed_append)
  then have "refs_closed (objects (create_relations self1))"
    by (rule create_relations_closed)
  then show ?thesis
    by (auto simp: refs_closed_def create_report_def to_stix_objects_def create_relations_def)
qed

lemma example_ip_note_converts:
  "\<exists>self1 w1. from_json example_rf (example_session [] False False False None)
      example_ip_note example_world = Inr (self1, w1)"
  by (simp add: from_json_def example_ip_note_def example_note_def example_entity_def
      example_session_def StixNote_init_def datetime_now_def example_world_def
      create_report_types_def from_json_entity_def Let_def ENTITY_TYPE_MAPPER_def
      risk_gate_def risk_annotate_def extend_objects_def to_stix_objects_of_def
      Indicator_to_stix_objects_def Indicator_create_stix_objects_def create_indicator_def
      Indicator_create_rel_def built_def Indicator_init_def RFStixEntity_init_def
      RFStixEntity_to_stix_objects_def create_stix_objects_def from_json_attachment_def)

theorem report_refs_closed_witness:
  "refs_closed (objects (example_session [] False False False None))
   \<and> (\<exists>self1 w1.
        from_json example_rf (example_session [] False False False None)
          example_ip_note example_world = Inr (self1, w1)
        \<and> set (map obj_id (objects (create_relations self1)))
            \<subseteq> set (object_refs (create_report (create_relations self1)))
        \<and> set (relationships self1) \<subseteq> set (objects (create_relations self1)))"
proof -
  have c: "refs_closed (objects (example_session [] False False False None))"
    by (simp add: example_session_def StixNote_init_def datetime_now_def refs_closed_def)
  from example_ip_note_converts obtain self1 w1 where
    f: "from_json example_rf (example_session [] False False False None)
          example_ip_note example_world = Inr (self1, w1)"
    by blast
  from report_refs_closed [OF c f] c f show ?thesis
    by auto
qed

subsection \<open>The author of the objects\<close>

text \<open>
  Claim C2, as stated, fails: a note with a Product, a Country and an Operation gives
  a Software, a Location and a Campaign object, none with a \<^verbatim>\<open>created_by_ref\<close>.
\<close>

theorem created_by_ref_counterexample:
  "map_sum id (\<lambda>(s, w). map (\<lambda>ob. (obj_type ob, created_by_ref ob)) (objects s))
     (from_json example_rf (example_session [] False False False None)
        example_product_note example_world)
   = Inr [(''software'', None), (''location'', None), (''campaign'', None)]"
  by (simp add: example_product_note_def example_defs)

text \<open>
  Claim C2, amended: every indicator, relationship, attack pattern, identity, threat
  actor, intrusion set, malware and vulnerability object a conversion adds to the
  session, every inferred relationship and the report refer to the session's author
  in \<^verbatim>\<open>created_by_ref\<close>; the observables of the indicators and the Software
  objects, whose classes have no such property, carry none. (Nothing is said of
  Location and Campaign objects.)
\<close>

theorem created_by_ref_author:
  assumes "from_json rf self attr w = Inr (self1, w1)"
  shows "\<exists>new. objects self1 = objects self @ new
           \<and> (\<forall>ob \<in> set (new @ relationships self1).
                 obj_type ob \<in> set authored_types \<longrightarrow>
                 created_by_ref ob = Some (obj_id (sn_author self)))
           \<and> created_by_ref (Stix2_Report (create_report (create_relations self1)))
               = Some (obj_id (sn_author self))
           \<and> (\<forall>ob \<in> set new.
                 obj_type ob \<in> set [''ipv4-addr'', ''domain-name'', ''url'', ''file'', ''software'']
                 \<longrightarrow> created_by_ref ob = None)"
proof -
  from from_json_ok [OF assms] obtain new where
    a: "sn_author self1 = sn_author self" and n: "objects self1 = objects self @ new"
    and au: "authored (sn_author self) new"
    by (auto simp: new_objects_ok_def)
  have r: "\<forall>ob \<in> set (relationships self1). created_by_ref ob = Some (obj_id (sn_author self))"
    using a by (auto simp: StixNote_create_rel_def dest!: relationships_props)
  have o: "\<And>ob. obj_type ob \<in> set [''ipv4-addr'', ''domain-name'', ''url'', ''file'', ''software'']
             \<Longrightarrow> created_by_ref ob = None"
    subgoal for ob by (cases ob) auto
    done
  from a n au r o show ?thesis
    by (auto simp: authored_def create_report_def create_relations_def)
qed

lemma example_ip_note_objects:
  "\<exists>self1 w1. from_json example_rf (example_session [] False False False None)
      example_ip_note example_world = Inr (self1, w1)
    \<and> map obj_type (objects self1) = [''indicator'', ''ipv4-addr'', ''relationship'', ''malware'']
    \<and> objects (example_session [] False False False None) = []"
  by (simp add: example_ip_note_def example_defs)

theorem created_by_ref_author_witness:
  "\<exists>self1 w1.
     from_json example_rf (example_session [] False False False None)
       example_ip_note example_world = Inr (self1, w1)
     \<and> map obj_type (objects self1)
         = [''indicator'', ''ipv4-addr'', ''relationship'', ''malware'']
     \<and> map created_by_ref (objects self1)
         = [Some (obj_id create_author), None, Some (obj_id create_author),
            Some (obj_id create_author)]"
proof -
  from example_ip_note_objects obtain self1 w1 where
    f: "from_json example_rf (example_session [] False False False None)
          example_ip_note example_world = Inr (self1, w1)"
    and t: "map obj_type (objects self1)
              = [''indicator'', ''ipv4-addr'', ''relationship'', ''malware'']"
    and e: "objects (example_session [] False False False None) = []"
    by (elim exE conjE)
  have a: "sn_author (example_session [] False False False None) = create_author"
    by (simp add: example_session_def StixNote_init_def datetime_now_def)
  from t obtain o1 o2 o3 o4 where os: "objects self1 = [o1, o2, o3, o4]"
    "obj_type o1 = ''indicator''" "obj_type o2 = ''ipv4-addr''"
    "obj_type o3 = ''relationship''" "obj_type o4 = ''malware''"
    by (auto simp: map_eq_Cons_conv)
  from created_by_ref_author [OF f] e a os have
    "map created_by_ref (objects self1)
         = [Some (obj_id create_author), None, Some (obj_id create_author),
            Some (obj_id create_author)]"
    by (auto simp: authored_types_def)
  with f t show ?thesis by (intro exI conjI)
qed

subsection \<open>Identities in relationship inference\<close>

lemma example_graph_edges:
  "edges example_graph = [(example_foo, example_finance, ''targets'')]"
  by (simp add: edges_def edges_from_def example_graph_def example_acme_def
      example_finance_def example_foo_def RELATIONSHIPS_MAPPER_def)

lemma relations_from_source:
  assumes "obj_type s' = obj_type s" and "obj_id s' = obj_id s"
  shows "relations_from self s' = relations_from self s"
  unfolding relations_from_def assms by (rule refl)

text \<open>
  Claim C6: the relationships \<^verbatim>\<open>create_relations\<close> appends are those of the
  pairs the loops link, and the target of a pair is an identity only when its
  \<^verbatim>\<open>identity_class\<close> is \<open>class\<close>. Read on the ids, where ids tell types and
  identity classes apart: no relationship has the id of an organization or individual
  identity as its target. The test is made on the target alone: what a source entity
  adds depends on its type and its id only, so the identity class of a source is
  never looked at and excludes nothing.
\<close>

theorem identity_target_only_class:
  "relationships self = map (edge_relationship self) (edges self)
   \<and> (\<forall>(s, t, relation) \<in> set (edges self).
        s \<in> set (objects self) \<and> t \<in> set (objects self)
        \<and> (obj_type t = ''identity'' \<longrightarrow> identity_class t = Some ''class''))
   \<and> (ids_consistent (objects self) \<longrightarrow>
        (\<forall>r \<in> set (relationships self). \<forall>ob \<in> set (objects self).
           obj_type ob = ''identity'' \<and> target_ref r = Some (obj_id ob) \<longrightarrow>
           identity_class ob = Some ''class''))
   \<and> (obj_type s' = obj_type s \<and> obj_id s' = obj_id s \<longrightarrow>
        relations_from self s' = relations_from self s)"
proof (intro conjI)
  show "relationships self = map (edge_relationship self) (edges self)"
    by (rule relationships_edges)
  show "\<forall>(s, t, relation) \<in> set (edges self).
        s \<in> set (objects self) \<and> t \<in> set (objects self)
        \<and> (obj_type t = ''identity'' \<longrightarrow> identity_class t = Some ''class'')"
  proof
    fix e
    assume e: "e \<in> set (edges self)"
    obtain s t relation where eq: "e = (s, t, relation)" by (cases e)
    from e have "(s, t, relation) \<in> set (edges self)" by (simp only: eq)
    note p = edges_props [OF this]
    from p [THEN conjunct1] p [THEN conjunct2, THEN conjunct1]
      p [THEN conjunct2, THEN conjunct2, THEN conjunct2]
    show "case e of (s, t, relation) \<Rightarrow>
        s \<in> set (objects self) \<and> t \<in> set (objects self)
        \<and> (obj_type t = ''identity'' \<longrightarrow> identity_class t = Some ''class'')"
      unfolding eq prod.case by (intro conjI)
  qed
  show "ids_consistent (objects self) \<longrightarrow>
        (\<forall>r \<in> set (relationships self). \<forall>ob \<in> set (objects self).
           obj_type ob = ''identity'' \<and> target_ref r = Some (obj_id ob) \<longrightarrow>
           identity_class ob = Some ''class'')"
  proof (intro impI ballI)
    fix r ob
    assume c: "ids_consistent (objects self)" and r: "r \<in> set (relationships self)"
      and ob: "ob \<in> set (objects self)"
      and h: "obj_type ob = ''identity'' \<and> target_ref r = Some (obj_id ob)"
    note ty = h [THEN conjunct1] and tr = h [THEN conjunct2]
    from relationships_edge [OF r] obtain s t relation where
      e: "(s, t, relation) \<in> set (edges self)"
      and req: "r = StixNote_create_rel self (obj_id s) (obj_id t) relation"
      by (elim exE conjE)
    note p = edges_props [OF e]
    note ts = p [THEN conjunct2, THEN conjunct1]
      and tc = p [THEN conjunct2, THEN conjunct2, THEN conjunct2]
    from c ts have
      "\<forall>y \<in> set (objects self). obj_id t = obj_id y \<longrightarrow>
         obj_type t = obj_type y \<and> identity_class t = identity_class y"
      unfolding ids_consistent_def by (rule bspec)
    from this ob have
      i: "obj_id t = obj_id ob \<longrightarrow> obj_type t = obj_type ob \<and> identity_class t = identity_class ob"
      by (rule bspec)
    from tr have "obj_id t = obj_id ob" by (simp add: req StixNote_create_rel_def)
    from i [THEN mp, OF this] ty tc show "identity_class ob = Some ''class''" by simp
  qed
  show "obj_type s' = obj_type s \<and> obj_id s' = obj_id s \<longrightarrow>
        relations_from self s' = relations_from self s"
    by (intro impI, elim conjE, rule relations_from_source)
qed

theorem identity_target_only_class_witness:
  "ids_consistent (objects example_graph)
   \<and> edges example_graph = [(example_foo, example_finance, ''targets'')]
   \<and> example_finance \<in> set (objects example_graph)
   \<and> obj_type example_finance = ''identity''
   \<and> target_ref (StixNote_create_rel example_graph (obj_id example_foo)
        (obj_id example_finance) ''targets'') = Some (obj_id example_finance)
   \<and> identity_class example_finance = Some ''class''
   \<and> relationships example_graph
        = [StixNote_create_rel example_graph (obj_id example_foo) (obj_id example_finance)
             ''targets'']
   \<and> obj_type example_acme_as_class = obj_type example_acme
   \<and> obj_id example_acme_as_class = obj_id example_acme
   \<and> identity_class example_acme_as_class \<noteq> identity_class example_acme
   \<and> relations_from example_graph example_acme_as_class
        = relations_from example_graph example_acme"
proof -
  let ?r = "StixNote_create_rel example_graph (obj_id example_foo) (obj_id example_finance)
              ''targets''"
  note inst = identity_target_only_class [of example_graph example_acme_as_class example_acme]
  have c: "ids_consistent (objects example_graph)"
    by (simp add: ids_consistent_def example_graph_def example_acme_def example_finance_def
        example_foo_def)
  have m: "example_finance \<in> set (objects example_graph)"
    and ty: "obj_type example_finance = ''identity''"
    by (simp_all add: example_graph_def example_finance_def)
  have tr: "target_ref ?r = Some (obj_id example_finance)"
    by (simp add: StixNote_create_rel_def)
  have s: "obj_type example_acme_as_class = obj_type example_acme"
    "obj_id example_acme_as_class = obj_id example_acme"
    "identity_class example_acme_as_class \<noteq> identity_class example_acme"
    by (simp_all add: example_acme_as_class_def example_acme_def)
  from inst have "relationships example_graph
                   = map (edge_relationship example_graph) (edges example_graph)"
    by (rule conjunct1)
  then have rels: "relationships example_graph = [?r]"
    by (simp only: example_graph_edges list.map edge_relationship_def prod.case)
  then have rin: "?r \<in> set (relationships example_graph)"
    by (simp only: list.set insertI1)
  note i3 = inst [THEN conjunct2, THEN conjunct2, THEN conjunct1, THEN mp, OF c]
  from i3 rin have
    "\<forall>ob \<in> set (objects example_graph).
        obj_type ob = ''identity'' \<and> target_ref ?r = Some (obj_id ob) \<longrightarrow>
        identity_class ob = Some ''class''"
    by (rule bspec)
  from this m have
    "obj_type example_finance = ''identity'' \<and> target_ref ?r = Some (obj_id example_finance)
       \<longrightarrow> identity_class example_finance = Some ''class''"
    by (rule bspec)
  from this [THEN mp, OF conjI, OF ty tr]
  have cls: "identity_class example_finance = Some ''class''" .
  from inst [THEN conjunct2, THEN conjunct2, THEN conjunct2, THEN mp, OF conjI, OF s(1) s(2)]
  have src: "relations_from example_graph example_acme_as_class
        = relations_from example_graph example_acme" .
  from c example_graph_edges m ty tr cls rels s src show ?thesis
    by (intro conjI)
qed

subsection \<open>A threshold of zero\<close>

lemma zero_threshold_fields:
  "person_to_ta (zero_threshold self) = person_to_ta self"
  "ta_to_intrusion_set (zero_threshold self) = ta_to_intrusion_set self"
  "risk_as_score (zero_threshold self) = risk_as_score self"
  "sn_tas (zero_threshold self) = sn_tas self"
  "sn_author (zero_threshold self) = sn_author self"
  "objects (zero_threshold self) = objects self"
  "external_references (zero_threshold self) = external_references self"
  "risk_threshold (zero_threshold self) = Some 0"
  by (simp_all add: zero_threshold_def)

lemma risk_gate_falsy:
  "risk_threshold self = None \<or> risk_threshold self = Some 0 \<Longrightarrow>
   risk_gate rf self rf_type name w = Inr (Pass None, w)"
  by (auto simp: risk_gate_def)

lemma risk_annotate_zero:
  "risk_annotate rf (zero_threshold self) rf_type name ob score w
     = risk_annotate rf self rf_type name ob score w"
  by (simp add: risk_annotate_def zero_threshold_fields)

lemma extend_objects_zero:
  "extend_objects (zero_threshold self) r = with_zero_threshold (extend_objects self r)"
  by (auto simp: extend_objects_def with_zero_threshold_def zero_threshold_def
      split: sum.splits)

lemma with_zero_threshold_simps:
  "with_zero_threshold (Inl e) = Inl e"
  "with_zero_threshold (Inr (self, w)) = Inr (zero_threshold self, w)"
  by (simp_all add: with_zero_threshold_def)

lemma zero_threshold_refs:
  "zero_threshold (self\<lparr>external_references := x\<rparr>)
     = (zero_threshold self)\<lparr>external_references := x\<rparr>"
  by (simp add: zero_threshold_def)

lemma from_json_entity_zero:
  "risk_threshold self = None \<Longrightarrow>
   from_json_entity rf (zero_threshold self) entity w
     = with_zero_threshold (from_json_entity rf self entity w)"
  unfolding from_json_entity_def Let_def
  by (simp add: zero_threshold_fields risk_gate_falsy risk_annotate_zero extend_objects_zero
      with_zero_threshold_simps zero_threshold_refs
      split: option.splits sum.splits)

lemma from_json_entity_threshold:
  "from_json_entity rf self entity w = Inr (self', w') \<Longrightarrow>
   risk_threshold self' = risk_threshold self \<and> risk_as_score self' = risk_as_score self"
  by (auto simp: from_json_entity_def Let_def
      split: if_splits option.splits sum.splits gate.splits dest!: extend_objects_Inr)

lemma from_json_entities_zero:
  "risk_threshold self = None \<Longrightarrow>
   from_json_entities rf (zero_threshold self) entities w
     = with_zero_threshold (from_json_entities rf self entities w)"
proof (induction entities arbitrary: self w)
  case Nil
  then show ?case by (simp add: with_zero_threshold_simps)
next
  case (Cons e es)
  show ?case
  proof (cases "from_json_entity rf self e w")
    case (Inl err)
    with Cons.prems show ?thesis
      by (simp add: from_json_entity_zero with_zero_threshold_simps)
  next
    case (Inr p)
    obtain self' w' where p: "p = (self', w')" by (cases p)
    with Inr from_json_entity_threshold [of rf self e w self' w'] Cons.prems
    have "risk_threshold self' = None" by simp
    from Cons.IH [OF this] Inr p Cons.prems show ?thesis
      by (simp add: from_json_entity_zero with_zero_threshold_simps)
  qed
qed

lemma from_json_attachment_zero:
  "from_json_attachment (zero_threshold self) att w
     = with_zero_threshold (from_json_attachment self att w)"
  by (simp add: from_json_attachment_def zero_threshold_fields extend_objects_zero
      with_zero_threshold_simps split: option.splits sum.splits)

lemma zero_threshold_updates:
  "(zero_threshold self)\<lparr>sn_name := a, sn_text := b, sn_published := c,
      external_references := d, report_types := e, labels := f\<rparr>
   = zero_threshold (self\<lparr>sn_name := a, sn_text := b, sn_published := c,
      external_references := d, report_types := e, labels := f\<rparr>)"
  by (simp add: zero_threshold_def)

lemma from_json_zero:
  assumes "risk_threshold self = None"
  shows "from_json rf (zero_threshold self) attr w = with_zero_threshold (from_json rf self attr w)"
proof (cases "generate_external_references (note_validation_urls attr)")
  case (Inl e)
  then show ?thesis by (simp add: from_json_def with_zero_threshold_simps)
next
  case (Inr refs)
  let ?s1 = "self\<lparr>sn_name := Some (note_title attr), sn_text := Some (note_text attr),
                sn_published := Given (note_published attr), external_references := refs,
                report_types := Some (fst (create_report_types (note_topic attr) w)),
                labels := Some (map topic_name (note_topic attr))\<rparr>"
  let ?w1 = "snd (create_report_types (note_topic attr) w)"
  have t: "risk_threshold ?s1 = None" using assms by simp
  show ?thesis
  proof (cases "from_json_entities rf ?s1 (note_entities attr) ?w1")
    case (Inl e)
    with Inr from_json_entities_zero [OF t, of rf "note_entities attr" ?w1] show ?thesis
      by (simp add: from_json_def Let_def split_beta zero_threshold_updates
          with_zero_threshold_simps)
  next
    case (Inr p)
    obtain self2 w2 where p: "p = (self2, w2)" by (cases p)
    with Inr \<open>generate_external_references (note_validation_urls attr) = Inr refs\<close>
      from_json_entities_zero [OF t, of rf "note_entities attr" ?w1]
    show ?thesis
      by (simp add: from_json_def Let_def split_beta zero_threshold_updates
          with_zero_threshold_simps from_json_attachment_zero)
  qed
qed

lemma ungated_refl: "ungated ras w w"
  by (simp add: ungated_def)

lemma ungated_trans: "ungated ras w1 w2 \<Longrightarrow> ungated ras w2 w3 \<Longrightarrow> ungated ras w1 w3"
  by (auto simp: ungated_def)

lemma ungated_events: "events w' = events w \<Longrightarrow> ungated ras w w'"
  by (simp add: ungated_def)

lemma ungated_warning: "ungated ras w (log_warning m w)"
  by (simp add: ungated_def log_warning_def)

lemma to_stix_objects_of_events:
  "to_stix_objects_of ob w = Inr (objs, w') \<Longrightarrow> events w' = events w"
  by (cases ob)
     (auto simp: to_stix_objects_of_def Indicator_to_stix_objects_def
        Indicator_create_stix_objects_def create_indicator_def datetime_now_def uuid4_def
        RFStixEntity_to_stix_objects_def create_stix_objects_def
        Location_to_stix_objects_def Campaign_to_stix_objects_def Let_def
        split: option.splits sum.splits prod.splits entity_class.splits)

lemma extend_objects_ungated:
  "extend_objects self (to_stix_objects_of ob w) = Inr (self', w') \<Longrightarrow> ungated ras w w'"
  by (auto dest!: extend_objects_Inr to_stix_objects_of_events intro: ungated_events)

lemma risk_annotate_ungated:
  "risk_annotate rf self rf_type name ob score w = Inr (ob', w') \<Longrightarrow>
   ungated (risk_as_score self) w w'"
  by (auto simp: risk_annotate_def get_risk_score_def Let_def ungated_def
      split: if_splits option.splits)

lemma from_json_entity_ungated:
  assumes "risk_threshold self = None \<or> risk_threshold self = Some 0"
    and "from_json_entity rf self entity w = Inr (self', w')"
  shows "ungated (risk_as_score self) w w'"
  using assms(2) unfolding from_json_entity_def Let_def
  by (auto simp: risk_gate_falsy [OF assms(1)] ungated_warning ungated_refl
      split: if_splits option.splits sum.splits
      intro: extend_objects_ungated ungated_trans [OF risk_annotate_ungated extend_objects_ungated]
      ungated_events)

lemma from_json_entities_ungated:
  "risk_threshold self = None \<or> risk_threshold self = Some 0 \<Longrightarrow>
   from_json_entities rf self entities w = Inr (self', w') \<Longrightarrow>
   ungated (risk_as_score self) w w'"
proof (induction entities arbitrary: self w)
  case Nil
  then show ?case by (simp add: ungated_refl)
next
  case (Cons e es)
  from Cons.prems(2) obtain s1 w1 where
    a: "from_json_entity rf self e w = Inr (s1, w1)"
    and b: "from_json_entities rf s1 es w1 = Inr (self', w')"
    by (auto split: sum.splits)
  from from_json_entity_threshold [OF a] Cons.prems(1)
  have t: "risk_threshold s1 = None \<or> risk_threshold s1 = Some 0"
    and r: "risk_as_score s1 = risk_as_score self"
    by simp_all
  from from_json_entity_ungated [OF Cons.prems(1) a] Cons.IH [OF t b] r
  show ?case by (auto intro: ungated_trans)
qed

lemma from_json_attachment_ungated:
  "from_json_attachment self att w = Inr (self', w') \<Longrightarrow> ungated ras w w'"
  by (auto simp: from_json_attachment_def ungated_refl
      split: option.splits sum.splits intro: extend_objects_ungated)

lemma create_report_types_ungated:
  "create_report_types topics w = (types, w1) \<Longrightarrow> ungated ras w w1"
  by (auto simp: create_report_types_def report_types_loop_eq ungated_def filter_map comp_def)

lemma from_json_ungated:
  assumes "risk_threshold self = None \<or> risk_threshold self = Some 0"
    and "from_json rf self attr w = Inr (self', w')"
  shows "ungated (risk_as_score self) w w'"
proof -
  from assms(2) obtain refs types w1 self2 w2 where
    c: "create_report_types (note_topic attr) w = (types, w1)"
    and a: "from_json_entities rf
          (self\<lparr>sn_name := Some (note_title attr), sn_text := Some (note_text attr),
                sn_published := Given (note_published attr), external_references := refs,
                report_types := Some types,
                labels := Some (map topic_name (note_topic attr))\<rparr>)
          (note_entities attr) w1 = Inr (self2, w2)"
    and b: "from_json_attachment self2 (note_attachment attr) w2 = Inr (self', w')"
    by (auto simp: from_json_def Let_def split: sum.splits prod.splits)
  from c have 1: "ungated (risk_as_score self) w w1"
    by (rule create_report_types_ungated)
  from assms(1) from_json_entities_ungated [OF _ a]
  have 2: "ungated (risk_as_score self) w1 w2" by simp
  from from_json_attachment_ungated [OF b] have 3: "ungated (risk_as_score self) w2 w'" .
  from 1 2 3 show ?thesis by (blast intro: ungated_trans)
qed

text \<open>
  Claim C10: with \<^verbatim>\<open>risk_threshold\<close> zero the conversion of a note does what it
  does with no threshold (the same error, or the same session, but for the threshold
  itself, and the same world); the gate asks for no score and skips no entity; and
  the conversion logs no skipped entity and, unless scores are surfaced, never calls
  the risk-score API.
\<close>

theorem zero_threshold_disables_gating:
  "from_json rf (self\<lparr>risk_threshold := Some 0\<rparr>) attr w
     = (case from_json rf (self\<lparr>risk_threshold := None\<rparr>) attr w of
          Inl e \<Rightarrow> Inl e
        | Inr (self', w') \<Rightarrow> Inr (self'\<lparr>risk_threshold := Some 0\<rparr>, w'))
   \<and> risk_gate rf (self\<lparr>risk_threshold := Some 0\<rparr>) rf_type name w = Inr (Pass None, w)
   \<and> risk_gate rf (self\<lparr>risk_threshold := None\<rparr>) rf_type name w = Inr (Pass None, w)
   \<and> (\<forall>self' w'.
        from_json rf (self\<lparr>risk_threshold := Some 0\<rparr>) attr w = Inr (self', w') \<longrightarrow>
        (\<exists>evs. events w' = events w @ evs \<and> filter is_log_info evs = []
           \<and> (\<not> risk_as_score self \<longrightarrow> filter is_get_risk_score evs = [])))"
proof (intro conjI allI impI)
  have z: "zero_threshold (self\<lparr>risk_threshold := None\<rparr>) = self\<lparr>risk_threshold := Some 0\<rparr>"
    by (simp add: zero_threshold_def)
  from from_json_zero [of "self\<lparr>risk_threshold := None\<rparr>" rf attr w]
  show "from_json rf (self\<lparr>risk_threshold := Some 0\<rparr>) attr w
     = (case from_json rf (self\<lparr>risk_threshold := None\<rparr>) attr w of
          Inl e \<Rightarrow> Inl e
        | Inr (self', w') \<Rightarrow> Inr (self'\<lparr>risk_threshold := Some 0\<rparr>, w'))"
    unfolding z by (simp add: with_zero_threshold_def zero_threshold_def split: sum.splits)
  show "risk_gate rf (self\<lparr>risk_threshold := Some 0\<rparr>) rf_type name w = Inr (Pass None, w)"
    by (simp add: risk_gate_falsy)
  show "risk_gate rf (self\<lparr>risk_threshold := None\<rparr>) rf_type name w = Inr (Pass None, w)"
    by (simp add: risk_gate_falsy)
next
  fix self' w'
  assume "from_json rf (self\<lparr>risk_threshold := Some 0\<rparr>) attr w = Inr (self', w')"
  from from_json_ungated [OF _ this]
  show "\<exists>evs. events w' = events w @ evs \<and> filter is_log_info evs = []
           \<and> (\<not> risk_as_score self \<longrightarrow> filter is_get_risk_score evs = [])"
    by (simp add: ungated_def)
qed

lemma example_zero_threshold_run:
  "\<exists>self' w'.
     from_json example_low_rf
       ((example_session [] False False False None)\<lparr>risk_threshold := Some 0\<rparr>)
       example_ip_note example_world = Inr (self', w')
     \<and> map obj_type (objects self')
         = [''indicator'', ''ipv4-addr'', ''relationship'', ''malware'']"
  by (simp add: example_ip_note_def example_low_rf_def example_defs)

theorem zero_threshold_disables_gating_witness:
  "\<exists>self' w'.
     from_json example_low_rf
       ((example_session [] False False False None)\<lparr>risk_threshold := Some 0\<rparr>)
       example_ip_note example_world = Inr (self', w')
     \<and> map obj_type (objects self')
         = [''indicator'', ''ipv4-addr'', ''relationship'', ''malware'']
     \<and> filter is_log_info (events w') = []
     \<and> filter is_get_risk_score (events w') = []"
proof -
  from example_zero_threshold_run obtain self' w' where
    f: "from_json example_low_rf
          ((example_session [] False False False None)\<lparr>risk_threshold := Some 0\<rparr>)
          example_ip_note example_world = Inr (self', w')"
    and t: "map obj_type (objects self')
              = [''indicator'', ''ipv4-addr'', ''relationship'', ''malware'']"
    by (elim exE conjE)
  have r: "\<not> risk_as_score (example_session [] False False False None)"
    by (simp add: example_session_def StixNote_init_def datetime_now_def)
  have e: "events example_world = []"
    by (simp add: example_world_def)
  from zero_threshold_disables_gating
         [of example_low_rf "example_session [] False False False None" example_ip_note
            example_world "''IpAddress''" "''1.2.3.4''"]
  have "\<forall>self' w'.
        from_json example_low_rf
          ((example_session [] False False False None)\<lparr>risk_threshold := Some 0\<rparr>)
          example_ip_note example_world = Inr (self', w') \<longrightarrow>
        (\<exists>evs. events w' = events example_world @ evs \<and> filter is_log_info evs = []
           \<and> (\<not> risk_as_score (example_session [] False False False None)
                \<longrightarrow> filter is_get_risk_score evs = []))"
    by (elim conjE)
  with f r e have "filter is_log_info (events w') = []"
    "filter is_get_risk_score (events w') = []"
    by auto
  with f t show ?thesis by (intro exI conjI)
qed

end
